theory Spec2Isabelle
  imports Complex_Main "HOL-Library.Sublist"
begin

section \<open>Strings and numbers of the source language\<close>

text \<open>
  The TypeScript sources work on JavaScript strings (sequences of code units) and on
  JavaScript numbers. Functions that only cut and join strings are modelled over lists of
  an arbitrary element type; functions that inspect characters are modelled over
  \<^typ>\<open>string\<close>, whose characters are the code units below 256. Sizes, offsets and
  counts are integers (\<^typ>\<open>int\<close>), scores are real numbers.
\<close>

text \<open>
  \<^verbatim>\<open>String.prototype.slice(start, end)\<close> for integer arguments: a negative
  argument counts from the end of the string, both are clamped to the string, and an
  empty string is returned when the clamped end does not exceed the clamped start.
\<close>

definition slice :: "'a list \<Rightarrow> int \<Rightarrow> int \<Rightarrow> 'a list" where
  "slice s start fin =
     (let len = int (length s);
          from = (if start < 0 then max (len + start) 0 else min start len);
          to = (if fin < 0 then max (len + fin) 0 else min fin len)
      in take (nat (to - from)) (drop (nat from) s))"

section \<open>Segmenter: \<^verbatim>\<open>chunkText\<close>\<close>

text \<open>
  \<^verbatim>\<open>
  export function chunkText(text, chunkSize = 1000, overlap = 200): string[] {
    const chunks: string[] = [];
    let start = 0;
    while (start < text.length) {
      const end = Math.min(start + chunkSize, text.length);
      chunks.push(text.slice(start, end));
      start += chunkSize - overlap;
    }
    return chunks;
  }
  \<close>
  The loop has no guard on \<^verbatim>\<open>chunkSize - overlap\<close>, so it need not terminate: it is a
  partial function into \<^typ>\<open>'a option\<close>, where \<^term>\<open>None\<close> is "never returns".
\<close>

partial_function (option) chunkText_loop ::
  "'a list \<Rightarrow> int \<Rightarrow> int \<Rightarrow> int \<Rightarrow> 'a list list \<Rightarrow> 'a list list option" where
  "chunkText_loop s chunkSize overlap start chunks =
     (if start < int (length s)
      then chunkText_loop s chunkSize overlap (start + (chunkSize - overlap))
             (chunks @ [slice s start (min (start + chunkSize) (int (length s)))])
      else Some chunks)"

definition chunkText :: "'a list \<Rightarrow> int \<Rightarrow> int \<Rightarrow> 'a list list option" where
  "chunkText s chunkSize overlap = chunkText_loop s chunkSize overlap 0 []"

text \<open>
  The number of chunks as the specification words it:
  \<^verbatim>\<open>ceil(max(1, len(T) - overlap) / (size - overlap))\<close>.
\<close>

definition spec_chunk_count :: "int \<Rightarrow> int \<Rightarrow> int \<Rightarrow> int" where
  "spec_chunk_count len chunkSize overlap =
     \<lceil>real_of_int (max 1 (len - overlap)) / real_of_int (chunkSize - overlap)\<rceil>"

definition window :: "'a list \<Rightarrow> int \<Rightarrow> int \<Rightarrow> int \<Rightarrow> nat \<Rightarrow> 'a list" where
  "window s chunkSize overlap start i =
     slice s (start + int i * (chunkSize - overlap))
             (min (start + int i * (chunkSize - overlap) + chunkSize) (int (length s)))"

definition windows_left :: "int \<Rightarrow> int \<Rightarrow> int \<Rightarrow> nat" where
  "windows_left len step start = nat \<lceil>real_of_int (len - start) / real_of_int step\<rceil>"

section \<open>Summarizer: \<^verbatim>\<open>coalesceChunks\<close>\<close>

text \<open>
  \<^verbatim>\<open>s.slice(start)\<close>: the end defaults to the length of the string.
\<close>

definition slice_from :: "'a list \<Rightarrow> int \<Rightarrow> 'a list" where
  "slice_from s start = slice s start (int (length s))"

text \<open>
  The inner loop of \<^verbatim>\<open>coalesceChunks\<close> scans the candidate overlap sizes downwards:
  \<^verbatim>\<open>
  for (let overlapSize = Math.min(400, result.length, currentChunk.length);
       overlapSize >= 50; overlapSize--) {
    const endOfResult = result.slice(-overlapSize);
    const startOfCurrent = currentChunk.slice(0, overlapSize);
    if (endOfResult === startOfCurrent) {
      result += currentChunk.slice(overlapSize); overlapFound = true; break;
    }
  }
  \<close>
  \<open>find_overlap\<close> returns the size at which the loop breaks, or \<^term>\<open>None\<close> when it runs
  to its end without a match.
\<close>

function find_overlap :: "string \<Rightarrow> string \<Rightarrow> int \<Rightarrow> int option" where
  "find_overlap result currentChunk overlapSize =
     (if overlapSize \<ge> 50
      then (if slice_from result (- overlapSize) = slice currentChunk 0 overlapSize
            then Some overlapSize
            else find_overlap result currentChunk (overlapSize - 1))
      else None)"
  by pat_completeness auto
termination
  by (relation "measure (\<lambda>(result, currentChunk, overlapSize). nat overlapSize)") auto

declare find_overlap.simps [simp del]

text \<open>
  One round of the outer loop: the non-overlapping rest of the chunk is appended, or, when
  no overlap was found, a newline and the whole chunk.
\<close>

definition append_chunk :: "string \<Rightarrow> string \<Rightarrow> string" where
  "append_chunk result currentChunk =
     (case find_overlap result currentChunk
             (min 400 (min (int (length result)) (int (length currentChunk)))) of
        Some overlapSize \<Rightarrow> result @ slice_from currentChunk overlapSize
      | None \<Rightarrow> result @ [CHR 0x0A] @ currentChunk)"

text \<open>
  \<^verbatim>\<open>coalesceChunks(chunks: Array<{ chunk_text: string }>)\<close>; the list holds the
  \<^verbatim>\<open>chunk_text\<close> of each row, in order.
\<close>

definition coalesceChunks :: "string list \<Rightarrow> string" where
  "coalesceChunks chunks =
     (case chunks of
        [] \<Rightarrow> []
      | [c] \<Rightarrow> c
      | c # rest \<Rightarrow> foldl append_chunk c rest)"

section \<open>Quality Scorer: \<^verbatim>\<open>scoreResponseHeuristic\<close>\<close>

text \<open>
  The interface \<^verbatim>\<open>QualityScores\<close>. The reasoning is either a fixed text or the template
  \<^verbatim>\<open>`Heuristic scoring: ${chunksRetrieved} chunks, ${(avgSimilarity * 100).toFixed(0)}% similarity, ${response.length} chars.`\<close>,
  kept as the three values the template prints (\<open>HeuristicScoring\<close> holds
  \<^verbatim>\<open>chunksRetrieved\<close>, \<^verbatim>\<open>avgSimilarity * 100\<close> and \<^verbatim>\<open>response.length\<close>).
\<close>

datatype reasoning_text = Text string | HeuristicScoring int real nat

record QualityScores =
  relevance :: real
  completeness :: real
  accuracy :: real
  coherence :: real
  overall :: real
  reasoning :: reasoning_text

text \<open>
  \<^verbatim>\<open>String.prototype.toLowerCase\<close> on code units below 256: the letters A to Z and
  the capital letters of Latin-1 (U+00C0 to U+00DE without the multiplication sign U+00D7)
  move up by 32, every other character stays.
\<close>

definition toLowerCase_char :: "char \<Rightarrow> char" where
  "toLowerCase_char c =
     (let n = (of_char c :: nat)
      in if (65 \<le> n \<and> n \<le> 90) \<or> (192 \<le> n \<and> n \<le> 222 \<and> n \<noteq> 215)
         then char_of (n + 32) else c)"

definition toLowerCase :: "string \<Rightarrow> string" where
  "toLowerCase s = map toLowerCase_char s"

text \<open>\<^verbatim>\<open>haystack.includes(needle)\<close> on strings: \<open>needle\<close> occurs as a substring.\<close>

fun str_includes :: "string \<Rightarrow> string \<Rightarrow> bool" where
  "str_includes [] needle = (needle = [])"
| "str_includes (c # cs) needle =
     (take (length needle) (c # cs) = needle \<or> str_includes cs needle)"

text \<open>
  The class \<^verbatim>\<open>\s\<close> of a regular expression, below 256: tab, line feed, vertical
  tab, form feed, carriage return, space and the no-break space.
\<close>

definition is_space :: "char \<Rightarrow> bool" where
  "is_space c = ((of_char c :: nat) \<in> {9, 10, 11, 12, 13, 32, 160})"

text \<open>
  \<^verbatim>\<open>s.split(/\s+/)\<close>: the pieces between maximal runs of white space, an empty piece
  before a leading run and after a trailing run; the first argument is the piece read so
  far.
\<close>

function split_ws :: "string \<Rightarrow> string \<Rightarrow> string list" where
  "split_ws cur [] = [cur]"
| "split_ws cur (c # cs) =
     (if is_space c then cur # split_ws [] (dropWhile is_space cs)
      else split_ws (cur @ [c]) cs)"
  by pat_completeness auto
termination
proof (relation "measure (\<lambda>(cur, s). length s)")
  fix cur :: string and c :: char and cs :: string
  have "length (dropWhile is_space cs) \<le> length cs"
    by (rule length_dropWhile_le)
  then show "(([], dropWhile is_space cs), (cur, c # cs)) \<in> measure (\<lambda>(cur, s). length s)"
    by simp
qed simp_all

definition refusalPhrases :: "string list" where
  "refusalPhrases =
     [''does not contain'', ''I don'' @ [CHR 0x27] @ ''t have'', ''cannot find'',
      ''no information'', ''I'' @ [CHR 0x27] @ ''m sorry'']"

text \<open>
  \<^verbatim>\<open>refusalPhrases.some(phrase => response.toLowerCase().includes(phrase.toLowerCase()))\<close>
\<close>

definition hasRefusal :: "string \<Rightarrow> bool" where
  "hasRefusal response =
     list_ex (\<lambda>phrase. str_includes (toLowerCase response) (toLowerCase phrase)) refusalPhrases"

text \<open>
  \<^verbatim>\<open>
  const contextWords = context.toLowerCase().split(/\s+/).slice(0, 100);
  const responseWords = response.toLowerCase().split(/\s+/);
  const contextOverlap = contextWords.filter(word =>
    word.length > 4 && responseWords.includes(word)).length;
  \<close>
\<close>

definition contextOverlap :: "string \<Rightarrow> string \<Rightarrow> nat" where
  "contextOverlap context response =
     (let contextWords = take 100 (split_ws [] (toLowerCase context));
          responseWords = split_ws [] (toLowerCase response)
      in length (filter (\<lambda>word. length word > 4 \<and> List.member responseWords word) contextWords))"

text \<open>The tests \<^verbatim>\<open>/[.!?]/.test(response)\<close> and \<^verbatim>\<open>/[A-Z]/.test(response)\<close>.\<close>

definition hasPunctuation :: "string \<Rightarrow> bool" where
  "hasPunctuation response = list_ex (\<lambda>c. c \<in> set ''.!?'') response"

definition hasCapitalization :: "string \<Rightarrow> bool" where
  "hasCapitalization response =
     list_ex (\<lambda>c. 65 \<le> (of_char c :: nat) \<and> (of_char c :: nat) \<le> 90) response"

text \<open>
  The function itself; each \<open>let\<close> is one assignment of the source, in the source's order
  (a variable assigned twice is bound twice).
\<close>

definition scoreResponseHeuristic ::
  "string \<Rightarrow> string \<Rightarrow> string \<Rightarrow> int \<Rightarrow> real \<Rightarrow> QualityScores" where
  "scoreResponseHeuristic query context response chunksRetrieved avgSimilarity =
     (let relevance = (if avgSimilarity \<ge> 0.8 then 0.9
                       else if avgSimilarity \<ge> 0.7 then 0.75
                       else if avgSimilarity \<ge> 0.6 then 0.6
                       else 0.4);
          relevance = (if chunksRetrieved = 0 then 0.2 else relevance);
          accuracy = (if hasRefusal response then 0.3 else 0.7);
          completeness = (if hasRefusal response then 0.2 else 0.7);
          reasoning = (if hasRefusal response
                       then ''Response indicates information not found in context.''
                       else '''');
          completeness = (if length response < 100 then completeness * 0.6
                          else if length response > 1500 then completeness * 0.8
                          else completeness);
          coherence = (if hasPunctuation response \<and> hasCapitalization response
                       then 0.7 else 0.5);
          accuracy = (if contextOverlap context response > 10
                      then min 1.0 (accuracy + 0.2) else accuracy);
          overall = (relevance + completeness + accuracy + coherence) / 4;
          reasoning = (if reasoning = []
                       then HeuristicScoring chunksRetrieved (avgSimilarity * 100) (length response)
                       else Text reasoning)
      in \<lparr> relevance = relevance, completeness = completeness, accuracy = accuracy,
           coherence = coherence, overall = overall, reasoning = reasoning \<rparr>)"

section \<open>Embedder Client: \<^verbatim>\<open>generateEmbeddings\<close> and \<^verbatim>\<open>cosineSimilarity\<close>\<close>

text \<open>
  One item of \<^verbatim>\<open>response.data\<close> of the embedding service: its position in the request
  and its vector.
\<close>

record embedding_item =
  index :: int
  embedding :: "real list"

definition BATCH_SIZE :: nat where
  "BATCH_SIZE = 2048"

text \<open>
  \<^verbatim>\<open>
  for (let i = 0; i < texts.length; i += BATCH_SIZE) {
    const batch = texts.slice(i, i + BATCH_SIZE);
    const response = await openai.embeddings.create({ model: ..., input: batch });
    const embeddings = response.data.sort((a, b) => a.index - b.index)
                                    .map((item) => item.embedding);
    allEmbeddings.push(...embeddings);
  }
  return allEmbeddings;
  \<close>
  The service \<^verbatim>\<open>openai.embeddings.create\<close> is a parameter: given the number of calls made
  before and the batch, it throws (\<open>Inl\<close>) or returns the items (\<open>Inr\<close>). The
  \<^verbatim>\<open>catch\<close> block logs and throws the same error again.
\<close>

function generateEmbeddings_loop ::
  "(nat \<Rightarrow> string list \<Rightarrow> 'e + embedding_item list) \<Rightarrow> string list \<Rightarrow> nat
     \<Rightarrow> real list list \<Rightarrow> 'e + real list list" where
  "generateEmbeddings_loop create texts i allEmbeddings =
     (if i < length texts
      then (case create (i div BATCH_SIZE) (take BATCH_SIZE (drop i texts)) of
              Inl err \<Rightarrow> Inl err
            | Inr data \<Rightarrow>
                generateEmbeddings_loop create texts (i + BATCH_SIZE)
                  (allEmbeddings @ map embedding (sort_key index data)))
      else Inr allEmbeddings)"
  by pat_completeness auto
termination
  by (relation "measure (\<lambda>(create, texts, i, allEmbeddings). length texts - i)")
     (auto simp: BATCH_SIZE_def)

declare generateEmbeddings_loop.simps [simp del]

definition generateEmbeddings ::
  "(nat \<Rightarrow> string list \<Rightarrow> 'e + embedding_item list) \<Rightarrow> string list \<Rightarrow> 'e + real list list" where
  "generateEmbeddings create texts = generateEmbeddings_loop create texts 0 []"

text \<open>The batch sent by call number \<open>k\<close>, and the number of calls a full run makes.\<close>

definition batch_of :: "string list \<Rightarrow> nat \<Rightarrow> string list" where
  "batch_of texts k = take BATCH_SIZE (drop (k * BATCH_SIZE) texts)"

definition num_batches :: "string list \<Rightarrow> nat" where
  "num_batches texts = (length texts + BATCH_SIZE - 1) div BATCH_SIZE"

text \<open>
  JavaScript numbers in \<^verbatim>\<open>cosineSimilarity\<close>. The vectors hold real numbers. A sum or
  product is a real number or \<^verbatim>\<open>NaN\<close> (\<^term>\<open>None\<close>); reading an array past its end
  gives \<^verbatim>\<open>undefined\<close>, which arithmetic turns into \<^verbatim>\<open>NaN\<close>. Only the final division
  can leave the real numbers otherwise: \<open>x / 0\<close> is \<^verbatim>\<open>NaN\<close> for \<open>x = 0\<close> and an
  infinity for any other \<open>x\<close>. Rounding and overflow are not modelled.
\<close>

datatype js_number = Finite real | PosInfinity | NegInfinity | NaN

definition js_read :: "real list \<Rightarrow> nat \<Rightarrow> real option" where
  "js_read xs i = (if i < length xs then Some (xs ! i) else None)"

fun js_add :: "real option \<Rightarrow> real option \<Rightarrow> real option" where
  "js_add (Some x) (Some y) = Some (x + y)"
| "js_add _ _ = None"

fun js_mul :: "real option \<Rightarrow> real option \<Rightarrow> real option" where
  "js_mul (Some x) (Some y) = Some (x * y)"
| "js_mul _ _ = None"

fun js_sqrt :: "real option \<Rightarrow> real option" where
  "js_sqrt (Some x) = (if x < 0 then None else Some (sqrt x))"
| "js_sqrt None = None"

fun js_divide :: "real option \<Rightarrow> real option \<Rightarrow> js_number" where
  "js_divide (Some x) (Some y) =
     (if y \<noteq> 0 then Finite (x / y)
      else if x = 0 then NaN
      else if x > 0 then PosInfinity else NegInfinity)"
| "js_divide _ _ = NaN"

text \<open>
  \<^verbatim>\<open>
  for (let i = 0; i < a.length; i++) {
    dotProduct += a[i] * b[i];
    normA += a[i] * a[i];
    normB += b[i] * b[i];
  }
  return dotProduct / (Math.sqrt(normA) * Math.sqrt(normB));
  \<close>
  The state of the loop is the triple \<open>(dotProduct, normA, normB)\<close>.
\<close>

definition cosine_step ::
  "real list \<Rightarrow> real list \<Rightarrow> real option \<times> real option \<times> real option \<Rightarrow> nat
     \<Rightarrow> real option \<times> real option \<times> real option" where
  "cosine_step a b st i =
     (case st of (dotProduct, normA, normB) \<Rightarrow>
        (js_add dotProduct (js_mul (js_read a i) (js_read b i)),
         js_add normA (js_mul (js_read a i) (js_read a i)),
         js_add normB (js_mul (js_read b i) (js_read b i))))"

definition cosineSimilarity :: "real list \<Rightarrow> real list \<Rightarrow> js_number" where
  "cosineSimilarity a b =
     (case foldl (cosine_step a b) (Some 0, Some 0, Some 0) [0 ..< length a] of
        (dotProduct, normA, normB) \<Rightarrow>
          js_divide dotProduct (js_mul (js_sqrt normA) (js_sqrt normB)))"

section \<open>Context Assembler: merging of consecutive chunks in \<^verbatim>\<open>POST /api/chat\<close>\<close>

text \<open>
  A row returned by the search functions, as the route reads it. The column \<^verbatim>\<open>id\<close> is
  the field \<open>row_id\<close>. A score that is \<^verbatim>\<open>null\<close> or absent is \<^term>\<open>None\<close>.
\<close>

record ScoredChunk =
  row_id :: string
  document_id :: string
  chunk_text :: string
  chunk_index :: int
  bm25_score :: "real option"
  vector_score :: "real option"
  combined_score :: "real option"
  document_similarity :: "real option"
  rank_method :: string

text \<open>
  The interface \<^verbatim>\<open>MergedChunk\<close>; its \<^verbatim>\<open>document_id\<close> is the field
  \<open>merged_document_id\<close>.
\<close>

record MergedChunk =
  merged_document_id :: string
  chunk_ids :: "string list"
  chunk_indices :: "int list"
  merged_text :: string
  avg_combined_score :: real
  max_combined_score :: real
  max_bm25_score :: real
  max_vector_score :: real
  max_document_similarity :: real
  avg_bm25_score :: real
  avg_vector_score :: real
  avg_document_similarity :: real

text \<open>\<^verbatim>\<open>score || 0\<close>: a missing score counts as 0.\<close>

fun or_zero :: "real option \<Rightarrow> real" where
  "or_zero (Some x) = x"
| "or_zero None = 0"

text \<open>\<^verbatim>\<open>Math.max(...xs)\<close> of the non-empty list \<open>x # xs\<close>.\<close>

definition math_max :: "real \<Rightarrow> real list \<Rightarrow> real" where
  "math_max x xs = fold max xs x"

text \<open>\<^verbatim>\<open>strings.join(sep)\<close>\<close>

fun join :: "string \<Rightarrow> string list \<Rightarrow> string" where
  "join sep [] = []"
| "join sep [s] = s"
| "join sep (s # t # ss) = s @ sep @ join sep (t # ss)"

text \<open>
  \<^verbatim>\<open>createMergedChunk(chunks)\<close>. On the empty array \<^verbatim>\<open>chunks[0].document_id\<close> throws a
  \<^verbatim>\<open>TypeError\<close>, which is the value \<^term>\<open>None\<close>.
\<close>

fun createMergedChunk :: "ScoredChunk list \<Rightarrow> MergedChunk option" where
  "createMergedChunk [] = None"
| "createMergedChunk (c # cs) =
     (let chunks = c # cs;
          score_of = (\<lambda>field. map (\<lambda>c. or_zero (field c)) chunks);
          avg_of = (\<lambda>field. foldl (+) 0 (score_of field) / real (length chunks));
          max_of = (\<lambda>field. math_max (or_zero (field c)) (map (\<lambda>c. or_zero (field c)) cs))
      in Some \<lparr> merged_document_id = document_id c,
                chunk_ids = map row_id chunks,
                chunk_indices = map chunk_index chunks,
                merged_text = join '' '' (map chunk_text chunks),
                avg_combined_score = avg_of combined_score,
                max_combined_score = max_of combined_score,
                max_bm25_score = max_of bm25_score,
                max_vector_score = max_of vector_score,
                max_document_similarity = max_of document_similarity,
                avg_bm25_score = avg_of bm25_score,
                avg_vector_score = avg_of vector_score,
                avg_document_similarity = avg_of document_similarity \<rparr>)"

text \<open>
  \<^verbatim>\<open>
  const chunksByDocument = new Map<string, any[]>();
  relevantChunks.forEach((chunk) => {
    if (!chunksByDocument.has(chunk.document_id)) chunksByDocument.set(chunk.document_id, []);
    chunksByDocument.get(chunk.document_id)!.push(chunk);
  });
  \<close>
  A \<^verbatim>\<open>Map\<close> iterates in the order in which its keys were first set: it is an association
  list, a new key goes to the end.
\<close>

fun map_push ::
  "(string \<times> ScoredChunk list) list \<Rightarrow> ScoredChunk \<Rightarrow> (string \<times> ScoredChunk list) list" where
  "map_push [] chunk = [(document_id chunk, [chunk])]"
| "map_push ((d, cs) # m) chunk =
     (if d = document_id chunk then (d, cs @ [chunk]) # m else (d, cs) # map_push m chunk)"

definition chunksByDocument :: "ScoredChunk list \<Rightarrow> (string \<times> ScoredChunk list) list" where
  "chunksByDocument relevantChunks = foldl map_push [] relevantChunks"

text \<open>
  The walk over the sorted chunks of one document, from \<^verbatim>\<open>i = 1\<close>, with the push of the
  last group after the loop:
  \<^verbatim>\<open>
  for (let i = 1; i < chunks.length; i++) {
    const lastInGroup = currentGroup[currentGroup.length - 1];
    if (chunks[i].chunk_index === lastInGroup.chunk_index + 1) {
      currentGroup.push(chunks[i]);
    } else {
      mergedChunks.push(createMergedChunk(currentGroup));
      currentGroup = [chunks[i]];
    }
  }
  if (currentGroup.length > 0) mergedChunks.push(createMergedChunk(currentGroup));
  \<close>
  Reading \<^verbatim>\<open>lastInGroup.chunk_index\<close> of an empty group throws (\<^term>\<open>None\<close>).
\<close>

fun merge_walk ::
  "ScoredChunk list \<Rightarrow> ScoredChunk list \<Rightarrow> MergedChunk list \<Rightarrow> MergedChunk list option" where
  "merge_walk currentGroup [] mergedChunks =
     (if length currentGroup > 0
      then (case createMergedChunk currentGroup of
              None \<Rightarrow> None
            | Some m \<Rightarrow> Some (mergedChunks @ [m]))
      else Some mergedChunks)"
| "merge_walk currentGroup (chunk # rest) mergedChunks =
     (if currentGroup = [] then None
      else if chunk_index chunk = chunk_index (last currentGroup) + 1
      then merge_walk (currentGroup @ [chunk]) rest mergedChunks
      else (case createMergedChunk currentGroup of
              None \<Rightarrow> None
            | Some m \<Rightarrow> merge_walk [chunk] rest (mergedChunks @ [m])))"

text \<open>
  One round of \<^verbatim>\<open>chunksByDocument.forEach\<close>: the stable sort by \<^verbatim>\<open>chunk_index\<close>, then
  the walk started with \<^verbatim>\<open>currentGroup = [chunks[0]]\<close>. On an empty array the group
  would hold \<^verbatim>\<open>undefined\<close> and \<^verbatim>\<open>createMergedChunk\<close> would throw.
\<close>

definition process_document :: "ScoredChunk list \<Rightarrow> MergedChunk list \<Rightarrow> MergedChunk list option" where
  "process_document chunks mergedChunks =
     (case sort_key chunk_index chunks of
        [] \<Rightarrow> None
      | c # rest \<Rightarrow> merge_walk [c] rest mergedChunks)"

fun process_documents ::
  "(string \<times> ScoredChunk list) list \<Rightarrow> MergedChunk list \<Rightarrow> MergedChunk list option" where
  "process_documents [] mergedChunks = Some mergedChunks"
| "process_documents ((documentId, chunks) # m) mergedChunks =
     (case process_document chunks mergedChunks of
        None \<Rightarrow> None
      | Some mergedChunks' \<Rightarrow> process_documents m mergedChunks')"

text \<open>
  The value of \<^verbatim>\<open>mergedChunks\<close> after the block
  \<^verbatim>\<open>if (relevantChunks && relevantChunks.length > 0) { ... }\<close>, whose last statement is
  \<^verbatim>\<open>mergedChunks.sort((a, b) => b.max_combined_score - a.max_combined_score)\<close>, a stable
  sort.
\<close>

definition mergedChunks :: "ScoredChunk list \<Rightarrow> MergedChunk list option" where
  "mergedChunks relevantChunks =
     (if length relevantChunks > 0
      then (case process_documents (chunksByDocument relevantChunks) [] of
              None \<Rightarrow> None
            | Some merged \<Rightarrow> Some (sort_key (\<lambda>m. - max_combined_score m) merged))
      else Some [])"






section \<open>Hybrid Scorer: the SQL functions \<^verbatim>\<open>hybrid_search_simple\<close> and \<^verbatim>\<open>smart_hybrid_search\<close>\<close>

text \<open>
  The scripts define each function several times with \<^verbatim>\<open>CREATE OR REPLACE FUNCTION\<close>;
  a later script replaces the definition of an earlier one. The definitions modelled here are
  the last ones, headed "Final fix: Use OR logic for BM25 scoring": they select the chunks
  above the similarity threshold and rank each of them against the query. The first
  definitions (\<^verbatim>\<open>03-hybrid-search.sql\<close>, \<^verbatim>\<open>05-document-embeddings.sql\<close>) instead joined
  keyword matches with vector matches.

  The tables, with the columns the functions read. Identifiers are strings; a column that
  may be \<^verbatim>\<open>NULL\<close> is an option.
\<close>

type_synonym vector = "real list"

record document =
  d_id :: string
  d_company_id :: string
  d_original_name :: string
  d_document_embedding :: "vector option"

record document_chunk =
  dc_id :: string
  dc_document_id :: string
  dc_chunk_text :: string
  dc_chunk_index :: int
  dc_embedding :: "vector option"

text \<open>
  What the functions use of PostgreSQL and its vector extension is a parameter: the cosine
  distance \<^verbatim>\<open><=>\<close>, \<^verbatim>\<open>to_tsvector('english', _)\<close>,
  \<^verbatim>\<open>plainto_tsquery('english', _)\<close>, the cast \<^verbatim>\<open>_::text\<close> of a query,
  \<^verbatim>\<open>to_tsquery('english', _)\<close>, the match operator \<^verbatim>\<open>@@\<close> and \<^verbatim>\<open>ts_rank_cd\<close>.
  Distances and ranks are real numbers.
\<close>

record ('tsv, 'tsq) postgres =
  cosine_distance :: "vector \<Rightarrow> vector \<Rightarrow> real"
  to_tsvector :: "string \<Rightarrow> 'tsv"
  plainto_tsquery :: "string \<Rightarrow> 'tsq"
  tsquery_text :: "'tsq \<Rightarrow> string"
  to_tsquery :: "string \<Rightarrow> 'tsq"
  ts_match :: "'tsv \<Rightarrow> 'tsq \<Rightarrow> bool"
  ts_rank_cd :: "'tsv \<Rightarrow> 'tsq \<Rightarrow> int \<Rightarrow> real"

text \<open>
  \<^verbatim>\<open>
  CREATE OR REPLACE FUNCTION bm25_rank(tsvector_col tsvector, query_tsquery tsquery)
  RETURNS float AS $$
    SELECT ts_rank_cd(tsvector_col, query_tsquery, 32 /* normalization */);
  $$
  \<close>
\<close>

definition bm25_rank :: "('tsv, 'tsq) postgres \<Rightarrow> 'tsv \<Rightarrow> 'tsq \<Rightarrow> real" where
  "bm25_rank pg tsvector_col query_tsquery = ts_rank_cd pg tsvector_col query_tsquery 32"

text \<open>
  \<^verbatim>\<open>replace(string, from, to)\<close>: every occurrence of \<open>from\<close>, found from left to right,
  becomes \<open>to\<close>; an empty \<open>from\<close> changes nothing.
\<close>

function sql_replace :: "string \<Rightarrow> string \<Rightarrow> string \<Rightarrow> string" where
  "sql_replace [] from to = []"
| "sql_replace (c # cs) from to =
     (if from \<noteq> [] \<and> take (length from) (c # cs) = from
      then to @ sql_replace (drop (length from) (c # cs)) from to
      else c # sql_replace cs from to)"
  by pat_completeness auto
termination
  by (relation "measure (\<lambda>(s, from, to). length s)") (auto simp: Suc_le_eq)

text \<open>
  \<^verbatim>\<open>
  query_tsquery_and := plainto_tsquery('english', query_text);
  query_tsquery_or := to_tsquery('english', replace(query_tsquery_and::text, ' & ', ' | '));
  \<close>
\<close>

definition query_tsquery_and :: "('tsv, 'tsq) postgres \<Rightarrow> string \<Rightarrow> 'tsq" where
  "query_tsquery_and pg query_text = plainto_tsquery pg query_text"

definition query_tsquery_or :: "('tsv, 'tsq) postgres \<Rightarrow> string \<Rightarrow> 'tsq" where
  "query_tsquery_or pg query_text =
     to_tsquery pg (sql_replace (tsquery_text pg (query_tsquery_and pg query_text)) '' & '' '' | '')"

text \<open>
  A condition on a \<^verbatim>\<open>NULL\<close> value is not true: a nullable value contributes a row
  only when it is present.
\<close>

fun nullable :: "'a option \<Rightarrow> 'a list" where
  "nullable None = []"
| "nullable (Some x) = [x]"

text \<open>
  The common table expression \<^verbatim>\<open>vector_results\<close> of \<^verbatim>\<open>hybrid_search_simple\<close>:
  \<^verbatim>\<open>
  SELECT dc.id, dc.document_id, dc.chunk_text, dc.chunk_index,
         (1 - (dc.embedding <=> query_embedding)) as vector_score
  FROM document_chunks dc INNER JOIN documents d ON dc.document_id = d.id
  WHERE (1 - (dc.embedding <=> query_embedding)) > match_threshold
    AND (filter_company_id IS NULL OR d.company_id = filter_company_id)
  \<close>
  Each row is the chunk, its document and its \<^verbatim>\<open>vector_score\<close>.
\<close>

definition vector_results ::
  "('tsv, 'tsq) postgres \<Rightarrow> document list \<Rightarrow> document_chunk list \<Rightarrow> vector \<Rightarrow> real
     \<Rightarrow> string option \<Rightarrow> (document_chunk \<times> document \<times> real) list" where
  "vector_results pg documents document_chunks query_embedding match_threshold filter_company_id =
     [(dc, d, 1 - cosine_distance pg e query_embedding).
        dc \<leftarrow> document_chunks, d \<leftarrow> documents, dc_document_id dc = d_id d,
        e \<leftarrow> nullable (dc_embedding dc),
        1 - cosine_distance pg e query_embedding > match_threshold,
        filter_company_id = None \<or> filter_company_id = Some (d_company_id d)]"

text \<open>
  \<^verbatim>\<open>scored_results\<close> and the final \<^verbatim>\<open>SELECT\<close>, for one row of \<^verbatim>\<open>vector_results\<close>:
  \<^verbatim>\<open>
  bm25_rank(to_tsvector('english', v.chunk_text), query_tsquery_or) as bm25_score,
  to_tsvector('english', v.chunk_text) @@ query_tsquery_and as is_boolean_match
  ...
  (s.bm25_score * bm25_weight + s.vector_score * vector_weight) as combined_score,
  CASE WHEN s.is_boolean_match THEN 'hybrid'
       WHEN s.bm25_score > 0 THEN 'partial_keyword'
       ELSE 'vector_only' END as rank_method
  \<close>
  The result is the sort key \<^verbatim>\<open>combined_score\<close> with the row; \<open>doc_similarity\<close> is the
  column \<^verbatim>\<open>document_similarity\<close> of \<^verbatim>\<open>smart_hybrid_search\<close>, absent from
  \<^verbatim>\<open>hybrid_search_simple\<close>.
\<close>

definition scored_result ::
  "('tsv, 'tsq) postgres \<Rightarrow> string \<Rightarrow> real \<Rightarrow> real \<Rightarrow> real option
     \<Rightarrow> document_chunk \<times> document \<times> real \<Rightarrow> real \<times> ScoredChunk" where
  "scored_result pg query_text bm25_weight vector_weight doc_similarity v =
     (case v of (dc, d, v_vector_score) \<Rightarrow>
        let s_bm25_score = bm25_rank pg (to_tsvector pg (dc_chunk_text dc))
                             (query_tsquery_or pg query_text);
            is_boolean_match = ts_match pg (to_tsvector pg (dc_chunk_text dc))
                                 (query_tsquery_and pg query_text);
            s_combined_score = s_bm25_score * bm25_weight + v_vector_score * vector_weight
        in (s_combined_score,
            \<lparr> row_id = dc_id dc, document_id = dc_document_id dc,
              chunk_text = dc_chunk_text dc, chunk_index = dc_chunk_index dc,
              bm25_score = Some s_bm25_score, vector_score = Some v_vector_score,
              combined_score = Some s_combined_score,
              document_similarity = doc_similarity,
              rank_method = (if is_boolean_match then ''hybrid''
                             else if s_bm25_score > 0 then ''partial_keyword''
                             else ''vector_only'') \<rparr>))"

text \<open>
  \<^verbatim>\<open>ORDER BY combined_score DESC LIMIT match_count\<close>, rows with equal score kept in
  their order.
\<close>

definition order_by_desc_limit :: "nat \<Rightarrow> (real \<times> 'a) list \<Rightarrow> 'a list" where
  "order_by_desc_limit match_count rows =
     map snd (take match_count (sort_key (\<lambda>row. - fst row) rows))"

definition hybrid_search_simple ::
  "('tsv, 'tsq) postgres \<Rightarrow> document list \<Rightarrow> document_chunk list \<Rightarrow> string \<Rightarrow> vector \<Rightarrow> real
     \<Rightarrow> nat \<Rightarrow> string option \<Rightarrow> real \<Rightarrow> real \<Rightarrow> ScoredChunk list" where
  "hybrid_search_simple pg documents document_chunks query_text query_embedding match_threshold
       match_count filter_company_id bm25_weight vector_weight =
     order_by_desc_limit match_count
       (map (scored_result pg query_text bm25_weight vector_weight None)
            (vector_results pg documents document_chunks query_embedding match_threshold
               filter_company_id))"

text \<open>
  \<^verbatim>\<open>find_relevant_documents\<close> (\<^verbatim>\<open>05-document-embeddings.sql\<close>):
  \<^verbatim>\<open>
  SELECT id, original_name, 1 - (document_embedding <=> query_embedding) AS similarity
  FROM documents
  WHERE document_embedding IS NOT NULL
    AND (company_id_filter IS NULL OR company_id = company_id_filter)
    AND 1 - (document_embedding <=> query_embedding) > similarity_threshold
  ORDER BY document_embedding <=> query_embedding
  LIMIT 10;
  \<close>
\<close>

definition find_relevant_documents ::
  "('tsv, 'tsq) postgres \<Rightarrow> document list \<Rightarrow> vector \<Rightarrow> real \<Rightarrow> string option
     \<Rightarrow> (string \<times> string \<times> real) list" where
  "find_relevant_documents pg documents query_embedding similarity_threshold company_id_filter =
     take 10 (sort_key (\<lambda>(id, original_name, similarity). 1 - similarity)
       [(d_id d, d_original_name d, 1 - cosine_distance pg e query_embedding).
          d \<leftarrow> documents, e \<leftarrow> nullable (d_document_embedding d),
          company_id_filter = None \<or> company_id_filter = Some (d_company_id d),
          1 - cosine_distance pg e query_embedding > similarity_threshold])"

text \<open>
  \<^verbatim>\<open>SELECT ARRAY_AGG(d.id) INTO relevant_doc_ids FROM find_relevant_documents(...) d\<close>:
  the aggregate of no rows is \<^verbatim>\<open>NULL\<close>.
\<close>

definition relevant_doc_ids ::
  "('tsv, 'tsq) postgres \<Rightarrow> document list \<Rightarrow> vector \<Rightarrow> real \<Rightarrow> string option
     \<Rightarrow> string list option" where
  "relevant_doc_ids pg documents query_embedding document_similarity_threshold filter_company_id =
     (case find_relevant_documents pg documents query_embedding document_similarity_threshold
             filter_company_id of
        [] \<Rightarrow> None
      | rows \<Rightarrow> Some (map fst rows))"

text \<open>
  \<^verbatim>\<open>vector_results\<close> of \<^verbatim>\<open>smart_hybrid_search\<close> has the further condition
  \<^verbatim>\<open>AND (relevant_doc_ids IS NULL OR d.id = ANY(relevant_doc_ids))\<close> and the column
  \<^verbatim>\<open>1 - (d.document_embedding <=> query_embedding) as doc_similarity\<close>.
\<close>

definition smart_vector_results ::
  "('tsv, 'tsq) postgres \<Rightarrow> document list \<Rightarrow> document_chunk list \<Rightarrow> vector \<Rightarrow> real
     \<Rightarrow> string option \<Rightarrow> string list option \<Rightarrow> (document_chunk \<times> document \<times> real) list" where
  "smart_vector_results pg documents document_chunks query_embedding match_threshold
       filter_company_id doc_ids =
     [(dc, d, 1 - cosine_distance pg e query_embedding).
        dc \<leftarrow> document_chunks, d \<leftarrow> documents, dc_document_id dc = d_id d,
        e \<leftarrow> nullable (dc_embedding dc),
        1 - cosine_distance pg e query_embedding > match_threshold,
        filter_company_id = None \<or> filter_company_id = Some (d_company_id d),
        (case doc_ids of None \<Rightarrow> True | Some ids \<Rightarrow> List.member ids (d_id d))]"

definition doc_similarity :: "('tsv, 'tsq) postgres \<Rightarrow> vector \<Rightarrow> document \<Rightarrow> real option" where
  "doc_similarity pg query_embedding d =
     map_option (\<lambda>e. 1 - cosine_distance pg e query_embedding) (d_document_embedding d)"

definition smart_hybrid_search ::
  "('tsv, 'tsq) postgres \<Rightarrow> document list \<Rightarrow> document_chunk list \<Rightarrow> string \<Rightarrow> vector \<Rightarrow> real
     \<Rightarrow> nat \<Rightarrow> string option \<Rightarrow> real \<Rightarrow> real \<Rightarrow> real \<Rightarrow> ScoredChunk list" where
  "smart_hybrid_search pg documents document_chunks query_text query_embedding match_threshold
       match_count filter_company_id document_similarity_threshold bm25_weight vector_weight =
     order_by_desc_limit match_count
       (map (\<lambda>v. scored_result pg query_text bm25_weight vector_weight
                   (doc_similarity pg query_embedding (fst (snd v))) v)
            (smart_vector_results pg documents document_chunks query_embedding match_threshold
               filter_company_id
               (relevant_doc_ids pg documents query_embedding document_similarity_threshold
                  filter_company_id)))"

text \<open>
  A small text-search configuration used as an example: a text is its lower-case words, a
  query is a list of words joined by \<open>&\<close> or by \<open>|\<close>, a text matches when it has all
  (\<open>&\<close>) or one (\<open>|\<close>) of the words, the rank is 1/2 on a match and 0 otherwise, and the
  distance of two vectors is 0 when they are equal and 1 otherwise.
\<close>

definition example_match :: "string list \<Rightarrow> bool \<times> string list \<Rightarrow> bool" where
  "example_match tsv q =
     (if fst q then list_ex (List.member tsv) (snd q) else list_all (List.member tsv) (snd q))"

definition example_pg :: "(string list, bool \<times> string list) postgres" where
  "example_pg =
     \<lparr> cosine_distance = (\<lambda>a b. if a = b then 0 else 1),
       to_tsvector = (\<lambda>s. split_ws [] (toLowerCase s)),
       plainto_tsquery = (\<lambda>s. (False, split_ws [] (toLowerCase s))),
       tsquery_text = (\<lambda>q. join (if fst q then '' | '' else '' & '') (snd q)),
       to_tsquery = (\<lambda>s. (List.member (split_ws [] s) ''|'',
                           filter (\<lambda>t. t \<noteq> ''&'' \<and> t \<noteq> ''|'') (split_ws [] s))),
       ts_match = example_match,
       ts_rank_cd = (\<lambda>tsv q normalization. if example_match tsv q then 1 / 2 else 0) \<rparr>"

definition example_documents :: "document list" where
  "example_documents =
     [\<lparr> d_id = ''doc1'', d_company_id = ''acme'', d_original_name = ''solar.pdf'',
        d_document_embedding = None \<rparr>]"

definition example_document_chunks :: "document_chunk list" where
  "example_document_chunks =
     [\<lparr> dc_id = ''c0'', dc_document_id = ''doc1'', dc_chunk_text = ''Solar panels'',
        dc_chunk_index = 0, dc_embedding = Some [1, 0] \<rparr>,
      \<lparr> dc_id = ''c1'', dc_document_id = ''doc1'', dc_chunk_text = ''solar sales'',
        dc_chunk_index = 1, dc_embedding = Some [0, 1] \<rparr>]"

text \<open>
  A second example configuration, with a stemmer as the \<^verbatim>\<open>english\<close> configuration has
  one. Texts and queries are reduced to the stems of their words; the cast of a query to
  text prints each stem in single quotes; \<^verbatim>\<open>to_tsquery\<close> reads the operands of its
  argument and reduces each of them to its stem, as it does with any word it is given.
  The stemmer is a table of the words used below: it takes \<open>agreed\<close> to \<open>agre\<close>, and
  \<open>agre\<close> itself to \<open>agr\<close>.
\<close>

definition quoted :: "string \<Rightarrow> string" where
  "quoted w = CHR 0x27 # w @ [CHR 0x27]"

definition unquoted :: "string \<Rightarrow> string" where
  "unquoted t = filter (\<lambda>c. c \<noteq> CHR 0x27) t"

definition example_stem :: "string \<Rightarrow> string" where
  "example_stem w =
     (if w = ''agreed'' then ''agre'' else if w = ''agre'' then ''agr''
      else if w = ''terms'' then ''term'' else w)"

definition restemming_pg :: "(string list, bool \<times> string list) postgres" where
  "restemming_pg =
     \<lparr> cosine_distance = (\<lambda>a b. if a = b then 0 else 1),
       to_tsvector = (\<lambda>s. map example_stem (split_ws [] (toLowerCase s))),
       plainto_tsquery = (\<lambda>s. (False, map example_stem (split_ws [] (toLowerCase s)))),
       tsquery_text = (\<lambda>q. join (if fst q then '' | '' else '' & '') (map quoted (snd q))),
       to_tsquery = (\<lambda>s. (List.member (split_ws [] s) ''|'',
                           map (\<lambda>t. example_stem (unquoted t))
                             (filter (\<lambda>t. t \<noteq> ''&'' \<and> t \<noteq> ''|'') (split_ws [] s)))),
       ts_match = example_match,
       ts_rank_cd = (\<lambda>tsv q normalization. if example_match tsv q then 1 / 2 else 0) \<rparr>"

text \<open>
  Two chunks of one document, each holding one word of the query \<open>agreed terms\<close>, both
  with the embedding of the query.
\<close>

definition agreed_documents :: "document list" where
  "agreed_documents =
     [\<lparr> d_id = ''doc1'', d_company_id = ''acme'', d_original_name = ''contract.pdf'',
        d_document_embedding = None \<rparr>]"

definition agreed_document_chunks :: "document_chunk list" where
  "agreed_document_chunks =
     [\<lparr> dc_id = ''c0'', dc_document_id = ''doc1'', dc_chunk_text = ''agreed'',
        dc_chunk_index = 0, dc_embedding = Some [1, 0] \<rparr>,
      \<lparr> dc_id = ''c1'', dc_document_id = ''doc1'', dc_chunk_text = ''terms'',
        dc_chunk_index = 1, dc_embedding = Some [1, 0] \<rparr>]"

section \<open>Properties of the segmenter\<close>

lemma chunkText_loop_diverges:
  assumes "chunkText_loop s chunkSize overlap start chunks = Some y"
  shows "\<not> (chunkSize \<le> overlap \<and> start < int (length s))"
proof (rule chunkText_loop.raw_induct
    [where P = "\<lambda>s chunkSize overlap start chunks y. \<not> (chunkSize \<le> overlap \<and> start < int (length s))",
     OF _ assms])
  fix f :: "'a list \<Rightarrow> int \<Rightarrow> int \<Rightarrow> int \<Rightarrow> 'a list list \<Rightarrow> 'a list list option"
    and s :: "'a list" and chunkSize overlap start :: int and chunks y :: "'a list list"
  assume IH: "\<And>s chunkSize overlap start chunks y.
      f s chunkSize overlap start chunks = Some y \<Longrightarrow> \<not> (chunkSize \<le> overlap \<and> start < int (length s))"
  assume step: "(if start < int (length s)
      then f s chunkSize overlap (start + (chunkSize - overlap))
             (chunks @ [slice s start (min (start + chunkSize) (int (length s)))])
      else Some chunks) = Some y"
  show "\<not> (chunkSize \<le> overlap \<and> start < int (length s))"
  proof
    assume a: "chunkSize \<le> overlap \<and> start < int (length s)"
    with step have "f s chunkSize overlap (start + (chunkSize - overlap))
             (chunks @ [slice s start (min (start + chunkSize) (int (length s)))]) = Some y"
      by simp
    from IH[OF this] a show False by simp
  qed
qed

lemma slice_window:
  "0 \<le> start \<Longrightarrow> 0 \<le> chunkSize \<Longrightarrow>
   slice s start (min (start + chunkSize) (int (length s))) = take (nat chunkSize) (drop (nat start) s)"
  by (auto simp: slice_def Let_def min_def nat_diff_distrib nat_add_distrib)

lemma windows_left_step:
  assumes "0 < step" "start < len"
  shows "windows_left len step start = Suc (windows_left len step (start + step))"
proof -
  define c where "c = \<lceil>real_of_int (len - start) / real_of_int step\<rceil>"
  have "real_of_int (len - (start + step)) / real_of_int step
      = real_of_int (len - start) / real_of_int step - 1"
    using assms(1) by (simp add: field_simps)
  then have c1: "\<lceil>real_of_int (len - (start + step)) / real_of_int step\<rceil> = c - 1"
    unfolding c_def by (simp only: ceiling_diff_one)
  have "0 < real_of_int (len - start) / real_of_int step"
    using assms by simp
  then have "0 < c"
    unfolding c_def by (simp only: zero_less_ceiling)
  then have "nat c = Suc (nat (c - 1))" by simp
  then show ?thesis
    unfolding windows_left_def c1 c_def[symmetric] .
qed

lemma windows_left_done:
  assumes "0 < step" "\<not> start < len"
  shows "windows_left len step start = 0"
proof -
  have "real_of_int (len - start) / real_of_int step \<le> 0"
    using assms by (simp add: divide_le_0_iff)
  then have "\<lceil>real_of_int (len - start) / real_of_int step\<rceil> \<le> 0"
    by (simp only: ceiling_le_zero)
  then show ?thesis unfolding windows_left_def by simp
qed

lemma window_shift:
  "window s chunkSize overlap (start + (chunkSize - overlap)) = (\<lambda>i. window s chunkSize overlap start (Suc i))"
  by (rule ext) (simp add: window_def algebra_simps)

lemma chunkText_loop_terminates:
  assumes "overlap < chunkSize"
  shows "chunkText_loop s chunkSize overlap start chunks =
     Some (chunks @ map (window s chunkSize overlap start)
                        [0 ..< windows_left (int (length s)) (chunkSize - overlap) start])"
proof (induction "nat (int (length s) - start)" arbitrary: start chunks rule: less_induct)
  case less
  let ?step = "chunkSize - overlap"
  let ?len = "int (length s)"
  have step: "0 < ?step" using assms by simp
  show ?case
  proof (cases "start < ?len")
    case False
    then show ?thesis
      using windows_left_done[OF step False] by (subst chunkText_loop.simps) simp
  next
    case True
    have smaller: "nat (?len - (start + ?step)) < nat (?len - start)"
      using step True by simp
    have w0: "slice s start (min (start + chunkSize) ?len) = window s chunkSize overlap start 0"
      by (simp add: window_def)
    have "chunkText_loop s chunkSize overlap start chunks
        = chunkText_loop s chunkSize overlap (start + ?step)
            (chunks @ [window s chunkSize overlap start 0])"
      using True by (subst chunkText_loop.simps) (simp only: if_True w0)
    also have "\<dots> = Some ((chunks @ [window s chunkSize overlap start 0]) @
        map (window s chunkSize overlap (start + ?step))
            [0 ..< windows_left ?len ?step (start + ?step)])"
      by (rule less.hyps[OF smaller])
    also have "map (window s chunkSize overlap (start + ?step))
            [0 ..< windows_left ?len ?step (start + ?step)]
        = map (window s chunkSize overlap start) [Suc 0 ..< Suc (windows_left ?len ?step (start + ?step))]"
      by (simp only: map_Suc_upt[symmetric] map_map comp_def window_shift)
    finally show ?thesis
      by (simp add: windows_left_step[OF step True] upt_conv_Cons del: upt_Suc)
  qed
qed

lemma chunkText_windows:
  assumes "overlap < chunkSize"
  shows "chunkText s chunkSize overlap =
     Some (map (window s chunkSize overlap 0)
               [0 ..< windows_left (int (length s)) (chunkSize - overlap) 0])"
  unfolding chunkText_def by (simp add: chunkText_loop_terminates[OF assms])

text \<open>
  Claim C4, as the code has it: for \<open>0 \<le> overlap < chunkSize\<close> the segmenter returns, and
  it returns exactly \<open>ceil(len(T) / (chunkSize - overlap))\<close> chunks (not
  \<open>ceil(max(1, len(T) - overlap) / (chunkSize - overlap))\<close>); chunk \<open>i\<close> starts at offset
  \<open>i * (chunkSize - overlap)\<close> and holds the next \<open>chunkSize\<close> characters, fewer where the
  text ends.
\<close>

theorem chunkText_count_and_windows:
  assumes "0 \<le> overlap" "overlap < chunkSize"
  shows "\<exists>chunks. chunkText s chunkSize overlap = Some chunks
     \<and> int (length chunks) = \<lceil>real (length s) / real_of_int (chunkSize - overlap)\<rceil>
     \<and> (\<forall>i < length chunks.
          chunks ! i = take (nat chunkSize) (drop (i * nat (chunkSize - overlap)) s))"
proof -
  let ?step = "chunkSize - overlap"
  let ?n = "windows_left (int (length s)) ?step 0"
  let ?chunks = "map (window s chunkSize overlap 0) [0 ..< ?n]"
  have step: "0 < ?step" and size: "0 \<le> chunkSize" using assms by simp_all
  have "0 \<le> real (length s) / real_of_int ?step"
    using step by simp
  then have "0 \<le> \<lceil>real (length s) / real_of_int ?step\<rceil>"
    by (simp only: zero_le_ceiling)
  then have count: "int (length ?chunks) = \<lceil>real (length s) / real_of_int ?step\<rceil>"
    by (simp add: windows_left_def)
  have win: "?chunks ! i = take (nat chunkSize) (drop (i * nat ?step) s)" if "i < length ?chunks" for i
  proof -
    have "0 \<le> int i * ?step" using step by simp
    then have "window s chunkSize overlap 0 i = take (nat chunkSize) (drop (nat (int i * ?step)) s)"
      using slice_window[of "int i * ?step" chunkSize s] size by (simp add: window_def)
    moreover have "nat (int i * ?step) = i * nat ?step"
      by (simp add: nat_mult_distrib)
    ultimately show ?thesis using that by simp
  qed
  show ?thesis
    using chunkText_windows[OF assms(2), of s] count win by blast
qed

theorem chunkText_count_and_windows_witness:
  "(0::int) \<le> 1 \<and> (1::int) < 3 \<and>
   (\<exists>chunks. chunkText ''abcde'' 3 1 = Some chunks
     \<and> int (length chunks) = \<lceil>real (length ''abcde'') / real_of_int (3 - 1)\<rceil>
     \<and> (\<forall>i < length chunks. chunks ! i = take (nat 3) (drop (i * nat (3 - 1)) ''abcde'')))"
  using chunkText_count_and_windows[of 1 3 "''abcde''"] by simp

text \<open>
  The count of the specification is wrong where the last window starts inside the text but
  past \<open>len(T) - overlap\<close>: a text of two characters with \<open>chunkSize = 2\<close> and
  \<open>overlap = 1\<close> gives two chunks, the specification's formula gives one.
\<close>

theorem chunkText_spec_count_counterexample:
  "chunkText ''ab'' 2 1 = Some [''ab'', ''b'']
   \<and> int (length [''ab'', ''b'']) \<noteq> spec_chunk_count (int (length ''ab'')) 2 1"
  by (simp add: chunkText_def chunkText_loop.simps slice_def spec_chunk_count_def)

text \<open>
  Claim C5, as the code has it: with \<open>overlap \<ge> chunkSize\<close> the segmenter raises no
  configuration error; it returns the empty sequence on the empty text and never returns on
  any other text.
\<close>

theorem chunkText_bad_config:
  assumes "chunkSize \<le> overlap"
  shows "chunkText s chunkSize overlap = (if s = [] then Some [] else None)"
proof (cases "s = []")
  case True
  then show ?thesis
    unfolding chunkText_def by (subst chunkText_loop.simps) simp
next
  case False
  have "chunkText_loop s chunkSize overlap 0 [] = None"
  proof (cases "chunkText_loop s chunkSize overlap 0 []")
    case None
    then show ?thesis .
  next
    case (Some y)
    from chunkText_loop_diverges[OF this] assms False show ?thesis by simp
  qed
  with False show ?thesis by (simp add: chunkText_def)
qed

theorem chunkText_bad_config_witness:
  "(5::int) \<le> 5 \<and> chunkText ''a'' 5 5 = (if ''a'' = [] then Some [] else None)"
  using chunkText_bad_config[of 5 5 "''a''"] by simp

text \<open>
  On the empty text a configuration with \<open>overlap \<ge> chunkSize\<close> returns normally.
\<close>

theorem chunkText_bad_config_counterexample:
  "chunkText ('''' :: string) 200 200 = Some []"
  unfolding chunkText_def by (subst chunkText_loop.simps) simp

section \<open>Properties of \<^verbatim>\<open>coalesceChunks\<close>\<close>

lemma slice_suffix:
  "0 < n \<Longrightarrow> n \<le> int (length s) \<Longrightarrow> slice_from s (- n) = drop (length s - nat n) s"
  by (auto simp: slice_from_def slice_def Let_def nat_diff_distrib)

lemma slice_prefix:
  "0 \<le> n \<Longrightarrow> slice s 0 n = take (nat n) s"
  by (auto simp: slice_def Let_def min_def)

lemma slice_from_drop:
  "0 \<le> n \<Longrightarrow> slice_from s n = drop (nat n) s"
  by (auto simp: slice_from_def slice_def Let_def min_def)

text \<open>
  The scan stops at the longest overlap between 50 and its starting size.
\<close>

lemma find_overlap_longest:
  assumes "50 \<le> k" "k \<le> n" "n \<le> int (length a)"
    and "drop (length a - nat k) a = take (nat k) b"
    and "\<forall>j. k < j \<and> j \<le> n \<longrightarrow> drop (length a - nat j) a \<noteq> take (nat j) b"
  shows "find_overlap a b n = Some k"
  using assms
proof (induction a b n rule: find_overlap.induct)
  case (1 result currentChunk overlapSize)
  show ?case
  proof (cases "overlapSize = k")
    case True
    then show ?thesis
      using 1(2,4,5) by (subst find_overlap.simps) (simp add: slice_suffix slice_prefix)
  next
    case False
    then have lt: "k < overlapSize" using 1(3) by simp
    then have ne: "slice_from result (- overlapSize) \<noteq> slice currentChunk 0 overlapSize"
      using 1(2,4,6) by (simp add: slice_suffix slice_prefix)
    have "find_overlap result currentChunk (overlapSize - 1) = Some k"
      using 1(1)[OF _ ne] 1(2,4,5,6) lt by simp
    then show ?thesis
      using ne lt 1(2) by (subst find_overlap.simps) simp
  qed
qed

text \<open>
  Claim C7, as the code has it: a single chunk is returned unchanged; for two chunks whose
  overlap of length \<open>k\<close> lies between 50 and 400 and is the longest overlap of at most 400
  characters, the result is the first text followed by the second without its first \<open>k\<close>
  characters.
\<close>

theorem coalesceChunks_single_and_pair:
  "coalesceChunks [c] = c \<and>
   (50 \<le> k \<and> k \<le> 400 \<and> k \<le> length a \<and> k \<le> length b
      \<and> drop (length a - k) a = take k b
      \<and> (\<forall>j. k < j \<and> j \<le> 400 \<and> j \<le> length a \<and> j \<le> length b
             \<longrightarrow> drop (length a - j) a \<noteq> take j b)
    \<longrightarrow> coalesceChunks [a, b] = a @ drop k b)"
proof (intro conjI impI)
  show "coalesceChunks [c] = c" by (simp add: coalesceChunks_def)
next
  assume h: "50 \<le> k \<and> k \<le> 400 \<and> k \<le> length a \<and> k \<le> length b
      \<and> drop (length a - k) a = take k b
      \<and> (\<forall>j. k < j \<and> j \<le> 400 \<and> j \<le> length a \<and> j \<le> length b
             \<longrightarrow> drop (length a - j) a \<noteq> take j b)"
  let ?n = "min 400 (min (int (length a)) (int (length b)))"
  have longest: "\<forall>j. int k < j \<and> j \<le> ?n \<longrightarrow> drop (length a - nat j) a \<noteq> take (nat j) b"
  proof (intro allI impI)
    fix j :: int
    assume j: "int k < j \<and> j \<le> ?n"
    then have "k < nat j \<and> nat j \<le> 400 \<and> nat j \<le> length a \<and> nat j \<le> length b"
      by auto
    with h show "drop (length a - nat j) a \<noteq> take (nat j) b" by blast
  qed
  have "find_overlap a b ?n = Some (int k)"
    by (rule find_overlap_longest) (use h longest in simp_all)
  then show "coalesceChunks [a, b] = a @ drop k b"
    by (simp add: coalesceChunks_def append_chunk_def slice_from_drop)
qed

theorem coalesceChunks_single_and_pair_witness:
  "(50::nat) \<le> 50 \<and> drop (length ''xxxxxxxxxxxxxxxxxxxxxxxxxxxxxxxxxxxxxxxxxxxxxxxxxx'' - 50) ''xxxxxxxxxxxxxxxxxxxxxxxxxxxxxxxxxxxxxxxxxxxxxxxxxx'' = take 50 ''xxxxxxxxxxxxxxxxxxxxxxxxxxxxxxxxxxxxxxxxxxxxxxxxxxyz''
   \<and> coalesceChunks [''xxxxxxxxxxxxxxxxxxxxxxxxxxxxxxxxxxxxxxxxxxxxxxxxxx'', ''xxxxxxxxxxxxxxxxxxxxxxxxxxxxxxxxxxxxxxxxxxxxxxxxxxyz''] = ''xxxxxxxxxxxxxxxxxxxxxxxxxxxxxxxxxxxxxxxxxxxxxxxxxx'' @ drop 50 ''xxxxxxxxxxxxxxxxxxxxxxxxxxxxxxxxxxxxxxxxxxxxxxxxxxyz''"
  using coalesceChunks_single_and_pair[of "''c''" 50 "''xxxxxxxxxxxxxxxxxxxxxxxxxxxxxxxxxxxxxxxxxxxxxxxxxx''" "''xxxxxxxxxxxxxxxxxxxxxxxxxxxxxxxxxxxxxxxxxxxxxxxxxxyz''"]
  by simp

text \<open>
  An overlap shorter than 50 characters is not looked for: the last character of
  \<open>''ab''\<close> is the first of \<open>''bc''\<close>, and the two chunks are joined with a newline.
\<close>

theorem coalesceChunks_short_overlap_counterexample:
  "drop (length ''ab'' - 1) ''ab'' = take 1 ''bc''
   \<and> coalesceChunks [''ab'', ''bc''] \<noteq> ''ab'' @ drop 1 ''bc''"
  by (simp add: coalesceChunks_def append_chunk_def find_overlap.simps)

section \<open>Properties of the heuristic scorer\<close>

text \<open>\<open>str_includes\<close> is the substring test.\<close>

lemma str_includes_iff:
  "str_includes s needle \<longleftrightarrow> (\<exists>before after. s = before @ needle @ after)"
proof (induction s)
  case Nil
  then show ?case by auto
next
  case (Cons c cs)
  have here: "take (length needle) (c # cs) = needle \<longleftrightarrow> (\<exists>after. c # cs = needle @ after)"
    by (metis append_eq_conv_conj)
  show ?case
  proof
    assume "str_includes (c # cs) needle"
    then consider "take (length needle) (c # cs) = needle" | "str_includes cs needle"
      by auto
    then show "\<exists>before after. c # cs = before @ needle @ after"
    proof cases
      case 1
      with here obtain after where "c # cs = [] @ needle @ after" by auto
      then show ?thesis by blast
    next
      case 2
      with Cons.IH obtain before after where "cs = before @ needle @ after" by blast
      then have "c # cs = (c # before) @ needle @ after" by simp
      then show ?thesis by blast
    qed
  next
    assume "\<exists>before after. c # cs = before @ needle @ after"
    then obtain before after where split: "c # cs = before @ needle @ after" by blast
    show "str_includes (c # cs) needle"
    proof (cases before)
      case Nil
      with split have "\<exists>after. c # cs = needle @ after" by simp
      with here have "take (length needle) (c # cs) = needle" by simp
      then show ?thesis by simp
    next
      case (Cons b bs)
      with split have "cs = bs @ needle @ after" by simp
      with Cons.IH show ?thesis by auto
    qed
  qed
qed

text \<open>
  Claim C3, as the code has it: a response with a refusal phrase gets accuracy 0.3, and
  0.5 when more than ten of the first hundred context words (longer than four characters)
  are also words of the response; the context bonus is added after the refusal penalty.
\<close>

theorem scoreResponseHeuristic_refusal_accuracy:
  assumes "hasRefusal response"
  shows "accuracy (scoreResponseHeuristic query context response chunksRetrieved avgSimilarity)
     = (if contextOverlap context response > 10 then 0.5 else 0.3)"
  using assms by (simp add: scoreResponseHeuristic_def Let_def)

theorem scoreResponseHeuristic_refusal_accuracy_witness:
  "hasRefusal ''Sorry, I cannot find that.''
   \<and> accuracy (scoreResponseHeuristic ''where?'' ''some context'' ''Sorry, I cannot find that.'' 2 0.75)
     = 0.3"
proof -
  have r: "hasRefusal ''Sorry, I cannot find that.''"
    by code_simp
  have o: "contextOverlap ''some context'' ''Sorry, I cannot find that.'' = 0"
    by code_simp
  show ?thesis
    using scoreResponseHeuristic_refusal_accuracy[OF r, of "''where?''" "''some context''" 2 "0.75"] r o
    by simp
qed

text \<open>
  A refusal that repeats eleven context words is scored 0.5, above the claimed bound.
\<close>

theorem scoreResponseHeuristic_refusal_counterexample:
  "hasRefusal ''cannot find hello''
   \<and> \<not> accuracy (scoreResponseHeuristic ''q''
          ''hello hello hello hello hello hello hello hello hello hello hello''
          ''cannot find hello'' 3 0.9) \<le> 0.3"
proof -
  have r: "hasRefusal ''cannot find hello''"
    by code_simp
  have o: "contextOverlap ''hello hello hello hello hello hello hello hello hello hello hello''
      ''cannot find hello'' = 11"
    by code_simp
  show ?thesis
    using r o by (simp add: scoreResponseHeuristic_def Let_def)
qed

text \<open>
  Claim C9: the query is never read; two calls that differ only in the query return the
  same record, reasoning included.
\<close>

theorem scoreResponseHeuristic_ignores_query:
  "scoreResponseHeuristic q1 context response chunksRetrieved avgSimilarity
   = scoreResponseHeuristic q2 context response chunksRetrieved avgSimilarity"
  by (simp add: scoreResponseHeuristic_def)

section \<open>Properties of the embedder client\<close>

lemma batch_pending_iff:
  "k * BATCH_SIZE < length texts \<longleftrightarrow> k < num_batches texts"
proof -
  have pos: "0 < BATCH_SIZE" by (simp add: BATCH_SIZE_def)
  have "\<not> k < num_batches texts \<longleftrightarrow> (length texts + BATCH_SIZE - 1) div BATCH_SIZE < Suc k"
    unfolding num_batches_def by auto
  also have "\<dots> \<longleftrightarrow> length texts + BATCH_SIZE - 1 < Suc k * BATCH_SIZE"
    using pos by (simp only: div_less_iff_less_mult)
  also have "\<dots> \<longleftrightarrow> \<not> k * BATCH_SIZE < length texts"
    using pos by auto
  finally show ?thesis by blast
qed

lemma generateEmbeddings_loop_unfold:
  "generateEmbeddings_loop create texts (k * BATCH_SIZE) acc =
     (if k < num_batches texts
      then (case create k (batch_of texts k) of
              Inl err \<Rightarrow> Inl err
            | Inr data \<Rightarrow>
                generateEmbeddings_loop create texts (Suc k * BATCH_SIZE)
                  (acc @ map embedding (sort_key index data)))
      else Inr acc)"
proof -
  have "0 < BATCH_SIZE" by (simp add: BATCH_SIZE_def)
  then have "k * BATCH_SIZE div BATCH_SIZE = k" by simp
  moreover have "k * BATCH_SIZE + BATCH_SIZE = Suc k * BATCH_SIZE" by simp
  ultimately show ?thesis
    by (subst generateEmbeddings_loop.simps)
       (simp only: batch_pending_iff batch_of_def)
qed

lemma generateEmbeddings_loop_success:
  assumes "\<forall>k. k0 \<le> k \<and> k < num_batches texts \<longrightarrow> create k (batch_of texts k) = Inr (d k)"
  shows "generateEmbeddings_loop create texts (k0 * BATCH_SIZE) acc =
     Inr (acc @ concat (map (\<lambda>k. map embedding (sort_key index (d k)))
                            [k0 ..< num_batches texts]))"
  using assms
proof (induction "num_batches texts - k0" arbitrary: k0 acc)
  case 0
  then have "\<not> k0 < num_batches texts" by simp
  then show ?case by (subst generateEmbeddings_loop_unfold) simp
next
  case (Suc n)
  then have lt: "k0 < num_batches texts" by simp
  with Suc.prems have here: "create k0 (batch_of texts k0) = Inr (d k0)" by simp
  have "generateEmbeddings_loop create texts (Suc k0 * BATCH_SIZE)
          (acc @ map embedding (sort_key index (d k0)))
      = Inr ((acc @ map embedding (sort_key index (d k0))) @
             concat (map (\<lambda>k. map embedding (sort_key index (d k)))
                         [Suc k0 ..< num_batches texts]))"
    using Suc.hyps(2) Suc.prems by (intro Suc.hyps(1)) auto
  then show ?case
    using lt here
    by (subst generateEmbeddings_loop_unfold) (simp add: upt_conv_Cons)
qed

lemma generateEmbeddings_loop_failure:
  assumes "k0 \<le> k" "k < num_batches texts"
    and "\<forall>j. k0 \<le> j \<and> j < k \<longrightarrow> create j (batch_of texts j) = Inr (d j)"
    and "create k (batch_of texts k) = Inl e"
  shows "generateEmbeddings_loop create texts (k0 * BATCH_SIZE) acc = Inl e"
  using assms
proof (induction "k - k0" arbitrary: k0 acc)
  case 0
  then have "k0 = k" by simp
  with 0 show ?case by (subst generateEmbeddings_loop_unfold) simp
next
  case (Suc n)
  then have lt: "k0 < k" by simp
  with Suc.prems have here: "create k0 (batch_of texts k0) = Inr (d k0)" by simp
  have "generateEmbeddings_loop create texts (Suc k0 * BATCH_SIZE)
          (acc @ map embedding (sort_key index (d k0))) = Inl e"
    using Suc.hyps(2) Suc.prems lt by (intro Suc.hyps(1)) auto
  then show ?case
    using lt here Suc.prems(2)
    by (subst generateEmbeddings_loop_unfold) simp
qed

lemma concat_batches:
  "concat (map (batch_of texts) [0 ..< n]) = take (n * BATCH_SIZE) texts"
proof (induction n)
  case 0
  show ?case by simp
next
  case (Suc n)
  have "take (n * BATCH_SIZE) texts @ take BATCH_SIZE (drop (n * BATCH_SIZE) texts)
      = take (n * BATCH_SIZE + BATCH_SIZE) texts"
    by (simp add: take_add)
  then show ?case
    using Suc by (simp add: batch_of_def add.commute)
qed

lemma batches_cover: "concat (map (batch_of texts) [0 ..< num_batches texts]) = texts"
proof -
  have "\<not> num_batches texts * BATCH_SIZE < length texts"
    by (simp only: batch_pending_iff)
  then show ?thesis by (simp add: concat_batches)
qed

lemma batch_lengths:
  "sum_list (map (\<lambda>j. length (batch_of texts j)) [0 ..< num_batches texts]) = length texts"
proof -
  have "length (concat (map (batch_of texts) [0 ..< num_batches texts]))
      = sum_list (map (\<lambda>j. length (batch_of texts j)) [0 ..< num_batches texts])"
    by (simp add: length_concat comp_def)
  then show ?thesis by (simp only: batches_cover)
qed

lemma length_concat_sorted_items:
  "length (concat (map (\<lambda>j. map embedding (sort_key index (d j))) js))
     = sum_list (map (\<lambda>j. length (d j)) js)"
  by (simp add: length_concat comp_def)

text \<open>
  Claim C8, as the code has it: the client fails with the service's error at the first call
  that fails. It compares no counts: when every call succeeds it returns the vectors of all
  calls, each call's items ordered by index, joined in the order of the calls; the result
  has as many vectors as the calls returned items, which is the number of texts when every
  call returned as many items as it was sent.
\<close>

theorem generateEmbeddings_fails_or_concatenates:
  "(k < num_batches texts
      \<and> (\<forall>j < k. create j (batch_of texts j) = Inr (d j))
      \<and> create k (batch_of texts k) = Inl e
    \<longrightarrow> generateEmbeddings create texts = Inl e)
   \<and> ((\<forall>j < num_batches texts. create j (batch_of texts j) = Inr (d j))
    \<longrightarrow> (\<exists>vectors. generateEmbeddings create texts = Inr vectors
          \<and> vectors = concat (map (\<lambda>j. map embedding (sort_key index (d j)))
                                  [0 ..< num_batches texts])
          \<and> length vectors = sum_list (map (\<lambda>j. length (d j)) [0 ..< num_batches texts])
          \<and> ((\<forall>j < num_batches texts. length (d j) = length (batch_of texts j))
               \<longrightarrow> length vectors = length texts)))"
proof (intro conjI impI)
  assume "k < num_batches texts
      \<and> (\<forall>j < k. create j (batch_of texts j) = Inr (d j))
      \<and> create k (batch_of texts k) = Inl e"
  then show "generateEmbeddings create texts = Inl e"
    using generateEmbeddings_loop_failure[of 0 k texts create d e "[]"]
    by (simp add: generateEmbeddings_def)
next
  let ?vectors = "concat (map (\<lambda>j. map embedding (sort_key index (d j)))
      [0 ..< num_batches texts])"
  assume "\<forall>j < num_batches texts. create j (batch_of texts j) = Inr (d j)"
  then have result: "generateEmbeddings create texts = Inr ?vectors"
    using generateEmbeddings_loop_success[of 0 texts create d "[]"]
    by (simp add: generateEmbeddings_def)
  have total: "length ?vectors = sum_list (map (\<lambda>j. length (d j)) [0 ..< num_batches texts])"
    by (rule length_concat_sorted_items)
  have same: "length ?vectors = length texts"
    if "\<forall>j < num_batches texts. length (d j) = length (batch_of texts j)"
  proof -
    have "map (\<lambda>j. length (d j)) [0 ..< num_batches texts]
        = map (\<lambda>j. length (batch_of texts j)) [0 ..< num_batches texts]"
      using that by simp
    then show ?thesis by (simp only: total batch_lengths)
  qed
  show "\<exists>vectors. generateEmbeddings create texts = Inr vectors
          \<and> vectors = concat (map (\<lambda>j. map embedding (sort_key index (d j)))
                                  [0 ..< num_batches texts])
          \<and> length vectors = sum_list (map (\<lambda>j. length (d j)) [0 ..< num_batches texts])
          \<and> ((\<forall>j < num_batches texts. length (d j) = length (batch_of texts j))
               \<longrightarrow> length vectors = length texts)"
    using result total same by (intro exI[of _ ?vectors]) simp
qed

theorem generateEmbeddings_fails_or_concatenates_witness:
  "generateEmbeddings (\<lambda>k batch. Inl ''rate limit'' :: string + embedding_item list)
      [''a'', ''b''] = Inl ''rate limit''
   \<and> generateEmbeddings
        (\<lambda>k batch. Inr [\<lparr>index = 1, embedding = [2]\<rparr>, \<lparr>index = 0, embedding = [1]\<rparr>]
           :: string + embedding_item list)
        [''a'', ''b''] = Inr [[1], [2]]
   \<and> length [[1 :: real], [2]] = length [''a'', ''b'']"
proof -
  have n: "num_batches [''a'', ''b''] = 1"
    by (simp add: num_batches_def BATCH_SIZE_def)
  have f: "generateEmbeddings (\<lambda>k batch. Inl ''rate limit'' :: string + embedding_item list)
      [''a'', ''b''] = Inl ''rate limit''"
    using generateEmbeddings_fails_or_concatenates
      [of 0 "[''a'', ''b'']" "\<lambda>k batch. Inl ''rate limit''" "\<lambda>j. []" "''rate limit''"] n
    by simp
  have s: "generateEmbeddings
        (\<lambda>k batch. Inr [\<lparr>index = 1, embedding = [2]\<rparr>, \<lparr>index = 0, embedding = [1]\<rparr>]
           :: string + embedding_item list)
        [''a'', ''b''] = Inr [[1], [2]]"
    using generateEmbeddings_fails_or_concatenates
      [of 0 "[''a'', ''b'']"
          "\<lambda>k batch. Inr [\<lparr>index = 1, embedding = [2]\<rparr>, \<lparr>index = 0, embedding = [1]\<rparr>]"
          "\<lambda>j. [\<lparr>index = 1, embedding = [2]\<rparr>, \<lparr>index = 0, embedding = [1]\<rparr>]"
          "''e''"] n
    by simp
  show ?thesis using f s by simp
qed

text \<open>
  A service that answers one text with no item at all is not detected: the client returns
  the empty list of vectors.
\<close>

theorem generateEmbeddings_count_counterexample:
  "generateEmbeddings (\<lambda>k batch. Inr [] :: string + embedding_item list) [''a''] = Inr []
   \<and> length ([] :: real list list) \<noteq> length [''a'']"
  by (simp add: generateEmbeddings_def generateEmbeddings_loop.simps BATCH_SIZE_def)

lemma foldl_invariant:
  assumes "P st" and "\<And>st i. i \<in> set is \<Longrightarrow> P st \<Longrightarrow> P (f st i)"
  shows "P (foldl f st is)"
  using assms by (induction "is" arbitrary: st) auto

lemma js_divide_zero_NaN:
  assumes "d = None \<or> d = Some 0" and "s = None \<or> s = Some 0"
  shows "js_divide d s = NaN"
  using assms by auto

lemma js_mul_zero_left: "js_mul (Some 0) s = None \<or> js_mul (Some 0) s = Some 0"
  by (cases s) auto

lemma js_mul_zero_right:
  assumes "s = None \<or> s = Some 0"
  shows "js_mul t s = None \<or> js_mul t s = Some 0"
  using assms by (cases t) auto

lemma js_sqrt_zero:
  assumes "s = None \<or> s = Some 0"
  shows "js_sqrt s = None \<or> js_sqrt s = Some 0"
  using assms by auto

lemma cosineSimilarity_zero_left:
  assumes "\<forall>x \<in> set a. x = 0"
  shows "cosineSimilarity a b = NaN"
proof -
  let ?P = "\<lambda>st :: real option \<times> real option \<times> real option.
      (fst st = None \<or> fst st = Some 0) \<and> fst (snd st) = Some 0"
  have step: "?P (cosine_step a b st i)" if "i \<in> set [0 ..< length a]" "?P st" for st i
  proof -
    from that(1) assms have "js_read a i = Some 0" by (simp add: js_read_def)
    with that(2) show ?thesis
      by (cases st; cases "js_read b i") (auto simp: cosine_step_def)
  qed
  have "?P (foldl (cosine_step a b) (Some 0, Some 0, Some 0) [0 ..< length a])"
    by (rule foldl_invariant[where P = ?P]) (use step in auto)
  then obtain d nB where st: "foldl (cosine_step a b) (Some 0, Some 0, Some 0) [0 ..< length a]
      = (d, Some 0, nB)" and d: "d = None \<or> d = Some 0"
    by (cases "foldl (cosine_step a b) (Some 0, Some 0, Some 0) [0 ..< length a]") auto
  have "js_divide d (js_mul (js_sqrt (Some 0)) (js_sqrt nB)) = NaN"
    using js_divide_zero_NaN[OF d js_mul_zero_left[of "js_sqrt nB"]] by simp
  then show ?thesis
    unfolding cosineSimilarity_def st by simp
qed

lemma cosineSimilarity_zero_right:
  assumes "\<forall>y \<in> set b. y = 0"
  shows "cosineSimilarity a b = NaN"
proof -
  let ?Z = "\<lambda>v :: real option. v = None \<or> v = Some 0"
  let ?P = "\<lambda>st :: real option \<times> real option \<times> real option. ?Z (fst st) \<and> ?Z (snd (snd st))"
  have step: "?P (cosine_step a b st i)" if "?P st" for st i
  proof -
    from assms have "?Z (js_read b i)" by (simp add: js_read_def)
    with that show ?thesis
      by (cases st; cases "js_read a i") (auto simp: cosine_step_def)
  qed
  have "?P (foldl (cosine_step a b) (Some 0, Some 0, Some 0) [0 ..< length a])"
    by (rule foldl_invariant[where P = ?P]) (use step in auto)
  then obtain d nA nB where st: "foldl (cosine_step a b) (Some 0, Some 0, Some 0) [0 ..< length a]
      = (d, nA, nB)" and d: "d = None \<or> d = Some 0" and nB: "nB = None \<or> nB = Some 0"
    by (cases "foldl (cosine_step a b) (Some 0, Some 0, Some 0) [0 ..< length a]") auto
  have "js_divide d (js_mul (js_sqrt nA) (js_sqrt nB)) = NaN"
    by (rule js_divide_zero_NaN[OF d js_mul_zero_right[OF js_sqrt_zero[OF nB]]])
  then show ?thesis
    unfolding cosineSimilarity_def st by simp
qed

text \<open>
  Claim C10: when either vector is all zero (the empty vector included) the result is
  \<^verbatim>\<open>NaN\<close>, neither an error nor a score; so a real number is returned only when both
  vectors have a nonzero entry.
\<close>

theorem cosineSimilarity_zero_vector_NaN:
  "((\<forall>x \<in> set a. x = 0) \<or> (\<forall>y \<in> set b. y = 0) \<longrightarrow> cosineSimilarity a b = NaN)
   \<and> (cosineSimilarity a b = Finite r \<longrightarrow> (\<exists>x \<in> set a. x \<noteq> 0) \<and> (\<exists>y \<in> set b. y \<noteq> 0))"
proof -
  have nan: "cosineSimilarity a b = NaN" if "(\<forall>x \<in> set a. x = 0) \<or> (\<forall>y \<in> set b. y = 0)"
    using that cosineSimilarity_zero_left[of a b] cosineSimilarity_zero_right[of b a] by blast
  have "(\<exists>x \<in> set a. x \<noteq> 0) \<and> (\<exists>y \<in> set b. y \<noteq> 0)" if "cosineSimilarity a b = Finite r"
  proof (rule ccontr)
    assume "\<not> ((\<exists>x \<in> set a. x \<noteq> 0) \<and> (\<exists>y \<in> set b. y \<noteq> 0))"
    then have "(\<forall>x \<in> set a. x = 0) \<or> (\<forall>y \<in> set b. y = 0)" by blast
    from nan[OF this] that show False by simp
  qed
  with nan show ?thesis by blast
qed

theorem cosineSimilarity_zero_vector_NaN_witness:
  "cosineSimilarity [0, 0] [1, 2] = NaN \<and> cosineSimilarity [] [] = NaN
   \<and> cosineSimilarity [1] [1] = Finite 1 \<and> (\<exists>x \<in> set [1 :: real]. x \<noteq> 0)"
proof -
  have z: "cosineSimilarity [0, 0] [1, 2] = NaN"
    using cosineSimilarity_zero_vector_NaN[of "[0, 0]" "[1, 2]" 0] by simp
  have e: "cosineSimilarity [] [] = NaN"
    using cosineSimilarity_zero_vector_NaN[of "[]" "[]" 0] by simp
  have f: "cosineSimilarity [1] [1] = Finite 1"
    by (simp add: cosineSimilarity_def cosine_step_def js_read_def)
  have "\<exists>x \<in> set [1 :: real]. x \<noteq> 0"
    using cosineSimilarity_zero_vector_NaN[of "[1]" "[1]" 1] f by blast
  with z e f show ?thesis by blast
qed

section \<open>Properties of the context assembler\<close>























section \<open>Properties of the hybrid scorer\<close>

lemma order_by_desc_limit_subset:
  "set (order_by_desc_limit match_count rows) \<subseteq> snd ` set rows"
proof -
  have "set (take match_count (sort_key (\<lambda>row. - fst row) rows)) \<subseteq> set rows"
    using set_take_subset[of match_count "sort_key (\<lambda>row. - fst row) rows"] by simp
  then show ?thesis unfolding order_by_desc_limit_def by auto
qed

lemma nullable_iff: "x \<in> set (nullable v) \<longleftrightarrow> v = Some x"
  by (cases v) auto

lemma vector_results_row:
  assumes "(dc, d, s) \<in> set (vector_results pg documents document_chunks query_embedding
      match_threshold filter_company_id)"
  shows "dc \<in> set document_chunks \<and> (\<exists>e. dc_embedding dc = Some e
      \<and> s = 1 - cosine_distance pg e query_embedding \<and> match_threshold < s)"
  using assms unfolding vector_results_def by (auto simp: nullable_iff)

lemma smart_vector_results_row:
  assumes "(dc, d, s) \<in> set (smart_vector_results pg documents document_chunks query_embedding
      match_threshold filter_company_id doc_ids)"
  shows "dc \<in> set document_chunks \<and> (\<exists>e. dc_embedding dc = Some e
      \<and> s = 1 - cosine_distance pg e query_embedding \<and> match_threshold < s)"
  using assms unfolding smart_vector_results_def by (auto simp: nullable_iff)

lemma scored_result_fields:
  "row_id (snd (scored_result pg query_text bm25_weight vector_weight ds (dc, d, s))) = dc_id dc"
  "chunk_text (snd (scored_result pg query_text bm25_weight vector_weight ds (dc, d, s)))
     = dc_chunk_text dc"
  "vector_score (snd (scored_result pg query_text bm25_weight vector_weight ds (dc, d, s)))
     = Some s"
  "bm25_score (snd (scored_result pg query_text bm25_weight vector_weight ds (dc, d, s)))
     = Some (bm25_rank pg (to_tsvector pg (dc_chunk_text dc)) (query_tsquery_or pg query_text))"
  "rank_method (snd (scored_result pg query_text bm25_weight vector_weight ds (dc, d, s)))
     = (if ts_match pg (to_tsvector pg (dc_chunk_text dc)) (query_tsquery_and pg query_text)
        then ''hybrid''
        else if bm25_rank pg (to_tsvector pg (dc_chunk_text dc)) (query_tsquery_or pg query_text) > 0
        then ''partial_keyword'' else ''vector_only'')"
  by (simp_all add: scored_result_def Let_def)

lemma hybrid_search_simple_row:
  assumes "r \<in> set (hybrid_search_simple pg documents document_chunks query_text query_embedding
      match_threshold match_count filter_company_id bm25_weight vector_weight)"
  shows "\<exists>dc d s. (dc, d, s) \<in> set (vector_results pg documents document_chunks query_embedding
        match_threshold filter_company_id)
     \<and> r = snd (scored_result pg query_text bm25_weight vector_weight None (dc, d, s))"
proof -
  have "r \<in> snd ` set (map (scored_result pg query_text bm25_weight vector_weight None)
      (vector_results pg documents document_chunks query_embedding match_threshold
         filter_company_id))"
    by (rule subsetD[OF order_by_desc_limit_subset assms[unfolded hybrid_search_simple_def]])
  then obtain v where v: "v \<in> set (vector_results pg documents document_chunks query_embedding
        match_threshold filter_company_id)"
      "r = snd (scored_result pg query_text bm25_weight vector_weight None v)"
    by auto
  obtain dc d s where "v = (dc, d, s)" by (cases v)
  with v show ?thesis by blast
qed

lemma smart_hybrid_search_row:
  assumes "r \<in> set (smart_hybrid_search pg documents document_chunks query_text query_embedding
      match_threshold match_count filter_company_id document_similarity_threshold
      bm25_weight vector_weight)"
  shows "\<exists>dc d s ds. (dc, d, s) \<in> set (smart_vector_results pg documents document_chunks
        query_embedding match_threshold filter_company_id
        (relevant_doc_ids pg documents query_embedding document_similarity_threshold
           filter_company_id))
     \<and> r = snd (scored_result pg query_text bm25_weight vector_weight ds (dc, d, s))"
proof -
  have "r \<in> snd ` set (map (\<lambda>v. scored_result pg query_text bm25_weight vector_weight
                   (doc_similarity pg query_embedding (fst (snd v))) v)
      (smart_vector_results pg documents document_chunks query_embedding match_threshold
         filter_company_id
         (relevant_doc_ids pg documents query_embedding document_similarity_threshold
            filter_company_id)))"
    by (rule subsetD[OF order_by_desc_limit_subset assms[unfolded smart_hybrid_search_def]])
  then obtain v where v: "v \<in> set (smart_vector_results pg documents document_chunks
        query_embedding match_threshold filter_company_id
        (relevant_doc_ids pg documents query_embedding document_similarity_threshold
           filter_company_id))"
      "r = snd (scored_result pg query_text bm25_weight vector_weight
                   (doc_similarity pg query_embedding (fst (snd v))) v)"
    by auto
  obtain dc d s where "v = (dc, d, s)" by (cases v)
  with v show ?thesis by blast
qed

text \<open>
  Claim C2: every row returned by either search function is a chunk of the table whose own
  embedding has a similarity above the threshold, and that similarity is the row's
  \<^verbatim>\<open>vector_score\<close>; with \<^verbatim>\<open>id\<close> a primary key, a chunk whose similarity is at most the
  threshold (or whose embedding is missing) is in neither result, whatever its text.
\<close>

theorem hybrid_search_above_threshold:
  "(\<forall>r \<in> set (hybrid_search_simple pg documents document_chunks query_text query_embedding
        match_threshold match_count filter_company_id bm25_weight vector_weight).
      \<exists>dc \<in> set document_chunks. \<exists>e. dc_embedding dc = Some e \<and> row_id r = dc_id dc
        \<and> vector_score r = Some (1 - cosine_distance pg e query_embedding)
        \<and> match_threshold < 1 - cosine_distance pg e query_embedding)
   \<and> (\<forall>r \<in> set (smart_hybrid_search pg documents document_chunks query_text query_embedding
        match_threshold match_count filter_company_id document_similarity_threshold
        bm25_weight vector_weight).
      \<exists>dc \<in> set document_chunks. \<exists>e. dc_embedding dc = Some e \<and> row_id r = dc_id dc
        \<and> vector_score r = Some (1 - cosine_distance pg e query_embedding)
        \<and> match_threshold < 1 - cosine_distance pg e query_embedding)
   \<and> (distinct (map dc_id document_chunks) \<longrightarrow>
        (\<forall>dc \<in> set document_chunks.
           (\<forall>e. dc_embedding dc = Some e
              \<longrightarrow> 1 - cosine_distance pg e query_embedding \<le> match_threshold) \<longrightarrow>
           dc_id dc \<notin> row_id ` set (hybrid_search_simple pg documents document_chunks query_text
               query_embedding match_threshold match_count filter_company_id bm25_weight
               vector_weight)
           \<and> dc_id dc \<notin> row_id ` set (smart_hybrid_search pg documents document_chunks
               query_text query_embedding match_threshold match_count filter_company_id
               document_similarity_threshold bm25_weight vector_weight)))"
proof -
  let ?simple = "hybrid_search_simple pg documents document_chunks query_text query_embedding
        match_threshold match_count filter_company_id bm25_weight vector_weight"
  let ?smart = "smart_hybrid_search pg documents document_chunks query_text query_embedding
        match_threshold match_count filter_company_id document_similarity_threshold
        bm25_weight vector_weight"
  let ?above = "\<lambda>r. \<exists>dc \<in> set document_chunks. \<exists>e. dc_embedding dc = Some e \<and> row_id r = dc_id dc
        \<and> vector_score r = Some (1 - cosine_distance pg e query_embedding)
        \<and> match_threshold < 1 - cosine_distance pg e query_embedding"
  have simple: "?above r" if "r \<in> set ?simple" for r
  proof -
    from hybrid_search_simple_row[OF that] obtain dc d s where
      v: "(dc, d, s) \<in> set (vector_results pg documents document_chunks query_embedding
          match_threshold filter_company_id)"
      and r: "r = snd (scored_result pg query_text bm25_weight vector_weight None (dc, d, s))"
      by blast
    from vector_results_row[OF v] obtain e where
      "dc \<in> set document_chunks" "dc_embedding dc = Some e"
      "s = 1 - cosine_distance pg e query_embedding" "match_threshold < s"
      by blast
    then show ?thesis unfolding r scored_result_fields by blast
  qed
  have smart: "?above r" if "r \<in> set ?smart" for r
  proof -
    from smart_hybrid_search_row[OF that] obtain dc d s ds where
      v: "(dc, d, s) \<in> set (smart_vector_results pg documents document_chunks
          query_embedding match_threshold filter_company_id
          (relevant_doc_ids pg documents query_embedding document_similarity_threshold
             filter_company_id))"
      and r: "r = snd (scored_result pg query_text bm25_weight vector_weight ds (dc, d, s))"
      by blast
    from smart_vector_results_row[OF v] obtain e where
      "dc \<in> set document_chunks" "dc_embedding dc = Some e"
      "s = 1 - cosine_distance pg e query_embedding" "match_threshold < s"
      by blast
    then show ?thesis unfolding r scored_result_fields by blast
  qed
  have absent: "dc_id dc \<notin> row_id ` set rows"
    if key: "distinct (map dc_id document_chunks)" and dc: "dc \<in> set document_chunks"
      and low: "\<forall>e. dc_embedding dc = Some e
              \<longrightarrow> 1 - cosine_distance pg e query_embedding \<le> match_threshold"
      and rows: "\<And>r. r \<in> set rows \<Longrightarrow> ?above r" for dc and rows :: "ScoredChunk list"
  proof
    assume "dc_id dc \<in> row_id ` set rows"
    then obtain r where r: "r \<in> set rows" "row_id r = dc_id dc" by (metis imageE)
    from rows[OF r(1)] obtain dc' e where dc': "dc' \<in> set document_chunks"
      "dc_embedding dc' = Some e" "row_id r = dc_id dc'"
      "match_threshold < 1 - cosine_distance pg e query_embedding"
      by blast
    have "inj_on dc_id (set document_chunks)" using key by (simp only: distinct_map)
    moreover have "dc_id dc' = dc_id dc" using r(2) dc'(3) by simp
    ultimately have "dc' = dc" using dc' dc by (meson inj_onD)
    with dc'(2,4) low show False by fastforce
  qed
  show ?thesis
    using simple smart absent[of _ ?simple, OF _ _ _ simple] absent[of _ ?smart, OF _ _ _ smart]
    by (intro conjI ballI impI) blast+
qed

theorem hybrid_search_above_threshold_witness:
  "hybrid_search_simple example_pg example_documents example_document_chunks ''solar sales''
      [1, 0] 0.5 5 (Some ''acme'') 0.3 0.7 \<noteq> []
   \<and> (\<exists>dc \<in> set example_document_chunks. \<exists>e. dc_embedding dc = Some e
        \<and> row_id (hd (hybrid_search_simple example_pg example_documents example_document_chunks
              ''solar sales'' [1, 0] 0.5 5 (Some ''acme'') 0.3 0.7)) = dc_id dc
        \<and> 0.5 < 1 - cosine_distance example_pg e [1, 0])"
proof -
  let ?rows = "hybrid_search_simple example_pg example_documents example_document_chunks
      ''solar sales'' [1, 0] 0.5 5 (Some ''acme'') 0.3 0.7"
  have ne: "?rows \<noteq> []" by code_simp
  then have "hd ?rows \<in> set ?rows" by simp
  with hybrid_search_above_threshold[of example_pg example_documents example_document_chunks
      "''solar sales''" "[1, 0]" "0.5" 5 "Some ''acme''" "0.3" "0.7" "0.6"] ne
  show ?thesis by blast
qed

text \<open>
  Claim C1 does not hold of the functions as written. The query for the lexical score is
  made by printing the \<open>&\<close> query, replacing \<open>&\<close> by \<open>|\<close> and reading the text
  again with \<^verbatim>\<open>to_tsquery('english', _)\<close>, which stems what it reads: a printed stem
  is stemmed a second time. For the query \<open>agreed terms\<close> the \<open>&\<close> query prints as
  \<^verbatim>\<open>'agre' & 'term'\<close>. On every PostgreSQL in which the chunk \<open>agreed\<close> has rank 0
  against \<^verbatim>\<open>to_tsquery('english', "'agre' | 'term'")\<close> (the stem of \<open>agre\<close> is
  \<open>agr\<close>, the chunk holds \<open>agre\<close>) and the chunk \<open>terms\<close> has a positive one, both
  functions return the two chunks, both above the threshold and each holding one of the
  two query terms: \<open>terms\<close> with a positive \<^verbatim>\<open>bm25_score\<close> as
  \<^verbatim>\<open>partial_keyword\<close>, \<open>agreed\<close> with \<^verbatim>\<open>bm25_score\<close> 0 as \<^verbatim>\<open>vector_only\<close>.
\<close>

theorem hybrid_search_restemmed_term_scores_zero:
  assumes dist: "cosine_distance pg [1, 0] [1, 0] = 0"
    and printed: "tsquery_text pg (plainto_tsquery pg ''agreed terms'')
                    = quoted ''agre'' @ '' & '' @ quoted ''term''"
    and and0: "\<not> ts_match pg (to_tsvector pg ''agreed'') (plainto_tsquery pg ''agreed terms'')"
    and and1: "\<not> ts_match pg (to_tsvector pg ''terms'') (plainto_tsquery pg ''agreed terms'')"
    and or0: "ts_rank_cd pg (to_tsvector pg ''agreed'')
                (to_tsquery pg (quoted ''agre'' @ '' | '' @ quoted ''term'')) 32 = 0"
    and or1: "0 < ts_rank_cd pg (to_tsvector pg ''terms'')
                (to_tsquery pg (quoted ''agre'' @ '' | '' @ quoted ''term'')) 32"
  shows "map (\<lambda>r. (row_id r, chunk_text r, bm25_score r = Some 0, rank_method r))
           (hybrid_search_simple pg agreed_documents agreed_document_chunks ''agreed terms''
              [1, 0] 0.5 10 None 0.3 0.7)
         = [(''c1'', ''terms'', False, ''partial_keyword''),
            (''c0'', ''agreed'', True, ''vector_only'')]
       \<and> map (\<lambda>r. (row_id r, chunk_text r, bm25_score r = Some 0, rank_method r))
           (smart_hybrid_search pg agreed_documents agreed_document_chunks ''agreed terms''
              [1, 0] 0.5 10 None 0.6 0.3 0.7)
         = [(''c1'', ''terms'', False, ''partial_keyword''),
            (''c0'', ''agreed'', True, ''vector_only'')]"
proof -
  have q: "sql_replace (quoted ''agre'' @ '' & '' @ quoted ''term'') '' & '' '' | ''
      = quoted ''agre'' @ '' | '' @ quoted ''term''"
    by (simp add: quoted_def)
  have qor: "query_tsquery_or pg ''agreed terms''
      = to_tsquery pg (quoted ''agre'' @ '' | '' @ quoted ''term'')"
    unfolding query_tsquery_or_def query_tsquery_and_def printed q ..
  have v: "vector_results pg agreed_documents agreed_document_chunks [1, 0] 0.5 None
      = [(agreed_document_chunks ! 0, agreed_documents ! 0, 1),
         (agreed_document_chunks ! 1, agreed_documents ! 0, 1)]"
    by (simp add: vector_results_def agreed_documents_def agreed_document_chunks_def dist)
  have ids: "relevant_doc_ids pg agreed_documents [1, 0] 0.6 None = None"
    by (simp add: relevant_doc_ids_def find_relevant_documents_def agreed_documents_def)
  have sv: "smart_vector_results pg agreed_documents agreed_document_chunks [1, 0] 0.5 None None
      = [(agreed_document_chunks ! 0, agreed_documents ! 0, 1),
         (agreed_document_chunks ! 1, agreed_documents ! 0, 1)]"
    by (simp add: smart_vector_results_def agreed_documents_def agreed_document_chunks_def dist)
  have simple: "map (\<lambda>r. (row_id r, chunk_text r, bm25_score r = Some 0, rank_method r))
           (hybrid_search_simple pg agreed_documents agreed_document_chunks ''agreed terms''
              [1, 0] 0.5 10 None 0.3 0.7)
         = [(''c1'', ''terms'', False, ''partial_keyword''),
            (''c0'', ''agreed'', True, ''vector_only'')]"
    unfolding hybrid_search_simple_def v
    using and0 and1 or0 or1
    by (simp add: order_by_desc_limit_def scored_result_def Let_def
        qor bm25_rank_def query_tsquery_and_def agreed_documents_def agreed_document_chunks_def)
  have smart: "map (\<lambda>r. (row_id r, chunk_text r, bm25_score r = Some 0, rank_method r))
           (smart_hybrid_search pg agreed_documents agreed_document_chunks ''agreed terms''
              [1, 0] 0.5 10 None 0.6 0.3 0.7)
         = [(''c1'', ''terms'', False, ''partial_keyword''),
            (''c0'', ''agreed'', True, ''vector_only'')]"
    unfolding smart_hybrid_search_def ids sv
    using and0 and1 or0 or1
    by (simp add: order_by_desc_limit_def scored_result_def Let_def
        qor bm25_rank_def query_tsquery_and_def agreed_documents_def agreed_document_chunks_def)
  from simple smart show ?thesis by (rule conjI)
qed

text \<open>
  The example configuration with the stemmer has these properties: there the \<open>|\<close> query
  is read back as \<open>agr | term\<close>.
\<close>

theorem hybrid_search_restemmed_term_scores_zero_witness:
  "to_tsvector restemming_pg ''agreed'' = [''agre'']
   \<and> to_tsquery restemming_pg (quoted ''agre'' @ '' | '' @ quoted ''term'')
       = (True, [''agr'', ''term''])
   \<and> map (\<lambda>r. (row_id r, chunk_text r, bm25_score r = Some 0, rank_method r))
           (hybrid_search_simple restemming_pg agreed_documents agreed_document_chunks ''agreed terms''
              [1, 0] 0.5 10 None 0.3 0.7)
         = [(''c1'', ''terms'', False, ''partial_keyword''),
            (''c0'', ''agreed'', True, ''vector_only'')]
       \<and> map (\<lambda>r. (row_id r, chunk_text r, bm25_score r = Some 0, rank_method r))
           (smart_hybrid_search restemming_pg agreed_documents agreed_document_chunks ''agreed terms''
              [1, 0] 0.5 10 None 0.6 0.3 0.7)
         = [(''c1'', ''terms'', False, ''partial_keyword''),
            (''c0'', ''agreed'', True, ''vector_only'')]"
proof -
  have h: "cosine_distance restemming_pg [1, 0] [1, 0] = 0"
    "tsquery_text restemming_pg (plainto_tsquery restemming_pg ''agreed terms'')
       = quoted ''agre'' @ '' & '' @ quoted ''term''"
    "\<not> ts_match restemming_pg (to_tsvector restemming_pg ''agreed'')
         (plainto_tsquery restemming_pg ''agreed terms'')"
    "\<not> ts_match restemming_pg (to_tsvector restemming_pg ''terms'')
         (plainto_tsquery restemming_pg ''agreed terms'')"
    "ts_rank_cd restemming_pg (to_tsvector restemming_pg ''agreed'')
       (to_tsquery restemming_pg (quoted ''agre'' @ '' | '' @ quoted ''term'')) 32 = 0"
    "0 < ts_rank_cd restemming_pg (to_tsvector restemming_pg ''terms'')
       (to_tsquery restemming_pg (quoted ''agre'' @ '' | '' @ quoted ''term'')) 32"
    by code_simp+
  have tsv: "to_tsvector restemming_pg ''agreed'' = [''agre'']"
    by code_simp
  have tsq: "to_tsquery restemming_pg (quoted ''agre'' @ '' | '' @ quoted ''term'')
       = (True, [''agr'', ''term''])"
    by code_simp
  from tsv tsq hybrid_search_restemmed_term_scores_zero[of restemming_pg, OF h]
  show ?thesis by (intro conjI) simp_all
qed

end
